theory Spec2Isabelle
  imports Complex_Main
begin

section \<open>Turtle's Adventure: the data model of \<^verbatim>\<open>turtle_adventure.py\<close>\<close>

text \<open>
  Coordinates, sizes and speeds are Python numbers that mix \<^verbatim>\<open>int\<close> and
  \<^verbatim>\<open>float\<close> (true division \<^verbatim>\<open>size/2\<close>, the factor \<^verbatim>\<open>1.1\<close>); they
  are embedded as \<^typ>\<open>real\<close>, so every statement below is about the exact value of
  the arithmetic the source writes, not about its floating-point rounding.
\<close>

subsection \<open>Game elements\<close>

text \<open>
  Modelled from the spec: \<^verbatim>\<open>gamelib.GameElement\<close> is imported by the source but is not
  among the source files. The spec describes it as the abstract entity that ``owns a
  position''; the source reads and writes that position as \<^verbatim>\<open>self.x\<close> and
  \<^verbatim>\<open>self.y\<close>.
\<close>

record game_element =
  pos_x :: real
  pos_y :: real

record waypoint = game_element +
  active :: bool

record home = game_element +
  home_size :: real

text \<open>
  The Player keeps its position in a \<^verbatim>\<open>RawTurtle\<close> of Python's standard library
  (\<^verbatim>\<open>Player.x\<close> is \<^verbatim>\<open>turtle.xcor()\<close>). The turtle is a position and an
  orientation; the orientation is kept as the unit vector \<open>(cos a, sin a)\<close> of the
  heading angle \<open>a\<close>, which is how the library stores it.
\<close>

record turtle =
  xcor :: real
  ycor :: real
  orient :: "real \<times> real"

record player =
  turtle :: turtle
  player_speed :: real

record enemy = game_element +
  enemy_size :: real
  color :: string
  speed :: real

datatype demo_x_state = State_move_right | State_move_left

datatype demo_y_state = State_move_down | State_move_up

record demo_enemy = enemy +
  x_state :: demo_x_state
  y_state :: demo_y_state

record random_walk_enemy = enemy +
  destination :: "int \<times> int"

record chasing_enemy = enemy +
  player_loc :: "real \<times> real"

datatype fencing_state =
  Move_right_state | Move_up_state | Move_left_state | Move_down_state

record fencing_enemy = enemy +
  fencing_state :: fencing_state

datatype cross_state = Cross_move_down_state | Cross_move_up_state

record cross_enemy = enemy +
  cross_state :: cross_state
  x_speed :: real
  y_speed :: real

subsection \<open>The game session\<close>

datatype enemy_class =
  DemoEnemy | RandomWalkEnemy | ChasingEnemy | FencingEnemy | CrossEnemy

text \<open>
  What \<^verbatim>\<open>add_element\<close> receives: the waypoint, the home, the player, or an enemy
  given by its class and the size and colour passed to its constructor.
\<close>

datatype game_object =
  WaypointObj | HomeObj | PlayerObj | EnemyObj enemy_class real string

text \<open>A text item drawn by \<^verbatim>\<open>canvas.create_text\<close>.\<close>

record canvas_text =
  text_x :: real
  text_y :: real
  text_string :: string
  text_fill :: string

text \<open>
  A callback handed to \<^verbatim>\<open>after\<close>: the bound method and its argument
  (\<^verbatim>\<open>create_chasing\<close> is scheduled with one argument, \<^verbatim>\<open>create_enemy\<close> with none).
\<close>

datatype callback = Create_enemy | Create_chasing "real option"

text \<open>
  The state of one \<^verbatim>\<open>TurtleAdventureGame\<close>. Besides the attributes the source declares
  it holds what the source reaches through the game object: the canvas geometry
  (\<^verbatim>\<open>canvas.winfo_width()\<close>, \<^verbatim>\<open>canvas.winfo_height()\<close>, pixel counts, hence naturals),
  the text items drawn on the canvas, the timer queue filled by \<^verbatim>\<open>after\<close>, the
  element collection and the running flag of \<^verbatim>\<open>gamelib.Game\<close>, and the state of
  Python's \<^verbatim>\<open>random\<close> module: an arbitrary sequence of raw draws and the number
  of draws consumed so far.
\<close>

record game =
  level :: int
  screen_width :: int
  screen_height :: int
  winfo_width :: nat
  winfo_height :: nat
  waypoint :: waypoint
  player :: player
  home :: home
  elements :: "game_object list"
  is_started :: bool
  canvas_texts :: "canvas_text list"
  after_queue :: "(nat \<times> callback) list"
  random_src :: "nat \<Rightarrow> nat"
  random_used :: nat

text \<open>
  Python's \<^verbatim>\<open>random.randint(a, b)\<close> returns some integer \<open>N\<close> with \<open>a \<le> N \<le> b\<close>
  and \<^verbatim>\<open>random.choice(xs)\<close> some member of \<open>xs\<close>; which one is decided by the next raw
  draw. \<^verbatim>\<open>randint\<close> raises \<^verbatim>\<open>ValueError\<close> when \<open>b < a\<close>; every call below has a
  literal range or the range from \<open>0\<close> to a canvas dimension, which is a natural number,
  so that branch is never taken.
\<close>

definition randint :: "int \<Rightarrow> int \<Rightarrow> game \<Rightarrow> int \<times> game" where
  "randint a b g =
     (a + int (random_src g (random_used g) mod nat (b - a + 1)),
      g\<lparr>random_used := random_used g + 1\<rparr>)"

definition choice :: "real list \<Rightarrow> game \<Rightarrow> real \<times> game" where
  "choice xs g =
     (xs ! (random_src g (random_used g) mod length xs),
      g\<lparr>random_used := random_used g + 1\<rparr>)"

text \<open>
  Modelled from the spec: \<^verbatim>\<open>stop\<close>, \<^verbatim>\<open>add_element\<close> and \<^verbatim>\<open>after\<close> belong to
  \<^verbatim>\<open>gamelib.Game\<close> and its tkinter base class, which are not among the source files.
  The spec has a terminal transition ``which the loop must honor by halting further
  ticks'', enemies ``added to the shared active-entity collection immediately upon
  creation'', and a timer primitive ``invoke callback after N milliseconds, once''.
\<close>

definition stop :: "game \<Rightarrow> game" where
  "stop g = g\<lparr>is_started := False\<rparr>"

definition add_element :: "game_object \<Rightarrow> game \<Rightarrow> game" where
  "add_element obj g = g\<lparr>elements := elements g @ [obj]\<rparr>"

definition after :: "nat \<Rightarrow> callback \<Rightarrow> game \<Rightarrow> game" where
  "after ms cb g = g\<lparr>after_queue := after_queue g @ [(ms, cb)]\<rparr>"

definition game_over_win :: "game \<Rightarrow> game" where
  "game_over_win g =
     (let g1 = stop g in
      g1\<lparr>canvas_texts := canvas_texts g1 @
           [\<lparr>text_x = real_of_int (screen_width g1) / 2,
             text_y = real_of_int (screen_height g1) / 2,
             text_string = ''You Win'', text_fill = ''green''\<rparr>]\<rparr>)"

definition game_over_lose :: "game \<Rightarrow> game" where
  "game_over_lose g =
     (let g1 = stop g in
      g1\<lparr>canvas_texts := canvas_texts g1 @
           [\<lparr>text_x = real_of_int (screen_width g1) / 2,
             text_y = real_of_int (screen_height g1) / 2,
             text_string = ''You Lose'', text_fill = ''red''\<rparr>]\<rparr>)"

subsection \<open>Home\<close>

definition contains :: "home \<Rightarrow> real \<Rightarrow> real \<Rightarrow> bool" where
  "contains h px py =
     (let x1 = pos_x h - home_size h / 2; x2 = pos_x h + home_size h / 2;
          y1 = pos_y h - home_size h / 2; y2 = pos_y h + home_size h / 2
      in (x1 \<le> px \<and> px \<le> x2) \<and> (y1 \<le> py \<and> py \<le> y2))"

subsection \<open>Waypoint\<close>

definition activate :: "real \<Rightarrow> real \<Rightarrow> waypoint \<Rightarrow> waypoint" where
  "activate wx wy w = w\<lparr>active := True, pos_x := wx, pos_y := wy\<rparr>"

definition deactivate :: "waypoint \<Rightarrow> waypoint" where
  "deactivate w = w\<lparr>active := False\<rparr>"

subsection \<open>Player\<close>

text \<open>
  The four turtle operations \<^verbatim>\<open>Player.update\<close> calls, from the library's definitions:
  \<^verbatim>\<open>towards\<close> is the angle of the vector from the turtle to the point (angle \<open>0\<close>
  for the zero vector, as \<^verbatim>\<open>math.atan2(0, 0)\<close> is \<open>0\<close>), \<^verbatim>\<open>setheading\<close> turns the
  orientation to an angle, \<^verbatim>\<open>forward\<close> adds \<open>distance\<close> times the orientation to the
  position, and \<^verbatim>\<open>distance\<close> is the Euclidean distance. An angle is represented by
  its unit vector.
\<close>

definition towards :: "turtle \<Rightarrow> real \<Rightarrow> real \<Rightarrow> real \<times> real" where
  "towards t wx wy =
     (let dx = wx - xcor t; dy = wy - ycor t; d = sqrt (dx\<^sup>2 + dy\<^sup>2)
      in if d = 0 then (1, 0) else (dx / d, dy / d))"

definition setheading :: "real \<times> real \<Rightarrow> turtle \<Rightarrow> turtle" where
  "setheading a t = t\<lparr>orient := a\<rparr>"

definition forward :: "real \<Rightarrow> turtle \<Rightarrow> turtle" where
  "forward d t =
     t\<lparr>xcor := xcor t + fst (orient t) * d, ycor := ycor t + snd (orient t) * d\<rparr>"

definition distance :: "turtle \<Rightarrow> real \<Rightarrow> real \<Rightarrow> real" where
  "distance t wx wy = sqrt ((wx - xcor t)\<^sup>2 + (wy - ycor t)\<^sup>2)"

definition player_x :: "player \<Rightarrow> real" where
  "player_x p = xcor (turtle p)"

definition player_y :: "player \<Rightarrow> real" where
  "player_y p = ycor (turtle p)"

text \<open>
  \<^verbatim>\<open>Player.update\<close>. (The name is capitalised because \<open>player_update\<close> is the
  update function of the field \<open>player\<close> of the game record.)
\<close>

definition Player_update :: "game \<Rightarrow> game" where
  "Player_update g =
     (let g1 = (if contains (home g) (player_x (player g)) (player_y (player g))
                then game_over_win g else g);
          w = waypoint g1
      in if active w then
           (let t1 = setheading (towards (turtle (player g1)) (pos_x w) (pos_y w))
                       (turtle (player g1));
                t2 = forward (player_speed (player g1)) t1;
                g2 = g1\<lparr>player := (player g1)\<lparr>turtle := t2\<rparr>\<rparr>
            in if distance t2 (pos_x w) (pos_y w) < player_speed (player g2)
               then g2\<lparr>waypoint := deactivate w\<rparr>
               else g2)
         else g1)"

subsection \<open>Enemy: the shared collision test\<close>

definition hits_player :: "'a enemy_scheme \<Rightarrow> game \<Rightarrow> bool" where
  "hits_player e g =
     ((pos_x e - enemy_size e / 2 < player_x (player g) \<and>
       player_x (player g) < pos_x e + enemy_size e / 2)
      \<and>
      (pos_y e - enemy_size e / 2 < player_y (player g) \<and>
       player_y (player g) < pos_y e + enemy_size e / 2))"

subsection \<open>DemoEnemy: the patrol that bounces off the screen edges\<close>

definition demo_create :: "demo_enemy \<Rightarrow> game \<Rightarrow> demo_enemy \<times> game" where
  "demo_create e g =
     (let (n, g1) = randint 1 5 g in (e\<lparr>speed := real_of_int n\<rparr>, g1))"

definition check_x_border :: "game \<Rightarrow> demo_enemy \<Rightarrow> bool" where
  "check_x_border g e =
     (if pos_x e < 0 \<or> pos_x e > real (winfo_width g) then True else False)"

definition check_y_border :: "game \<Rightarrow> demo_enemy \<Rightarrow> bool" where
  "check_y_border g e =
     (if pos_y e < 0 \<or> pos_y e > real (winfo_height g) then True else False)"

definition state_move_right :: "demo_enemy \<Rightarrow> game \<Rightarrow> demo_enemy \<times> game" where
  "state_move_right e g =
     (let e1 = e\<lparr>pos_x := pos_x e + speed e\<rparr> in
      if check_x_border g e1 then
        (let (f, g1) = choice [1, 1.1] g
         in (e1\<lparr>speed := speed e1 * f, x_state := State_move_left\<rparr>, g1))
      else (e1, g))"

definition state_move_left :: "demo_enemy \<Rightarrow> game \<Rightarrow> demo_enemy \<times> game" where
  "state_move_left e g =
     (let e1 = e\<lparr>pos_x := pos_x e - speed e\<rparr> in
      if check_x_border g e1 then
        (let (f, g1) = choice [1, 1.1] g
         in (e1\<lparr>speed := speed e1 * f, x_state := State_move_right\<rparr>, g1))
      else (e1, g))"

definition state_move_down :: "demo_enemy \<Rightarrow> game \<Rightarrow> demo_enemy \<times> game" where
  "state_move_down e g =
     (let e1 = e\<lparr>pos_y := pos_y e + speed e\<rparr> in
      if check_y_border g e1 then
        (let (f, g1) = choice [1, 1.1] g
         in (e1\<lparr>speed := speed e1 * f, y_state := State_move_up\<rparr>, g1))
      else (e1, g))"

definition state_move_up :: "demo_enemy \<Rightarrow> game \<Rightarrow> demo_enemy \<times> game" where
  "state_move_up e g =
     (let e1 = e\<lparr>pos_y := pos_y e - speed e\<rparr> in
      if check_y_border g e1 then
        (let (f, g1) = choice [1, 1.1] g
         in (e1\<lparr>speed := speed e1 * f, y_state := State_move_down\<rparr>, g1))
      else (e1, g))"

text \<open>
  \<^verbatim>\<open>self.__x_state()\<close> and \<^verbatim>\<open>self.__y_state()\<close> call the method the attribute is bound
  to; the bound method is the state tag.
\<close>

definition demo_update :: "demo_enemy \<Rightarrow> game \<Rightarrow> demo_enemy \<times> game" where
  "demo_update e g =
     (let (e1, g1) = (case x_state e of
                        State_move_right \<Rightarrow> state_move_right e g
                      | State_move_left \<Rightarrow> state_move_left e g);
          (e2, g2) = (case y_state e1 of
                        State_move_down \<Rightarrow> state_move_down e1 g1
                      | State_move_up \<Rightarrow> state_move_up e1 g1)
      in if hits_player e2 g2 then (e2, game_over_lose g2) else (e2, g2))"

text \<open>A run of \<open>n\<close> successive updates of one patrol enemy.\<close>

fun demo_updates :: "nat \<Rightarrow> demo_enemy \<Rightarrow> game \<Rightarrow> demo_enemy \<times> game" where
  "demo_updates 0 e g = (e, g)"
| "demo_updates (Suc n) e g = (let (e1, g1) = demo_update e g in demo_updates n e1 g1)"

subsection \<open>RandomWalkEnemy\<close>

definition gen_dest :: "game \<Rightarrow> (int \<times> int) \<times> game" where
  "gen_dest g =
     (let (a, g1) = randint 0 (int (winfo_width g)) g;
          (b, g2) = randint 0 (int (winfo_height g1)) g1
      in ((a, b), g2))"

definition random_walk_create ::
  "random_walk_enemy \<Rightarrow> game \<Rightarrow> random_walk_enemy \<times> game" where
  "random_walk_create e g =
     (let (n, g1) = randint 1 5 g;
          (a, g2) = randint 0 (int (winfo_width g1)) g1;
          (b, g3) = randint 0 (int (winfo_height g2)) g2
      in (e\<lparr>speed := real_of_int n, pos_x := real_of_int a, pos_y := real_of_int b\<rparr>, g3))"

definition random_walk_update_x :: "random_walk_enemy \<Rightarrow> random_walk_enemy" where
  "random_walk_update_x e =
     (if real_of_int (fst (destination e)) > pos_x e
      then e\<lparr>pos_x := pos_x e + min (speed e) (real_of_int (fst (destination e)) - pos_x e)\<rparr>
      else e\<lparr>pos_x := pos_x e - min (speed e) (pos_x e - real_of_int (fst (destination e)))\<rparr>)"

definition random_walk_update_y :: "random_walk_enemy \<Rightarrow> random_walk_enemy" where
  "random_walk_update_y e =
     (if real_of_int (snd (destination e)) > pos_y e
      then e\<lparr>pos_y := pos_y e + min (speed e) (real_of_int (snd (destination e)) - pos_y e)\<rparr>
      else e\<lparr>pos_y := pos_y e - min (speed e) (pos_y e - real_of_int (snd (destination e)))\<rparr>)"

definition random_walk_update ::
  "random_walk_enemy \<Rightarrow> game \<Rightarrow> random_walk_enemy \<times> game" where
  "random_walk_update e g =
     (let (e1, g1) =
            (if real_of_int (fst (destination e)) = pos_x e \<and>
                real_of_int (snd (destination e)) = pos_y e
             then (let (d, g') = gen_dest g in (e\<lparr>destination := d\<rparr>, g'))
             else (e, g));
          e2 = random_walk_update_x e1;
          e3 = random_walk_update_y e2
      in if hits_player e3 g1 then (e3, game_over_lose g1) else (e3, g1))"

subsection \<open>ChasingEnemy\<close>

definition gen_player_loc :: "game \<Rightarrow> real \<times> real" where
  "gen_player_loc g = (player_x (player g), player_y (player g))"

definition chasing_update_x :: "chasing_enemy \<Rightarrow> chasing_enemy" where
  "chasing_update_x e =
     (if fst (player_loc e) > pos_x e
      then e\<lparr>pos_x := pos_x e + min (speed e) (fst (player_loc e) - pos_x e)\<rparr>
      else e\<lparr>pos_x := pos_x e - min (speed e) (pos_x e - fst (player_loc e))\<rparr>)"

definition chasing_update_y :: "chasing_enemy \<Rightarrow> chasing_enemy" where
  "chasing_update_y e =
     (if snd (player_loc e) > pos_y e
      then e\<lparr>pos_y := pos_y e + min (speed e) (snd (player_loc e) - pos_y e)\<rparr>
      else e\<lparr>pos_y := pos_y e - min (speed e) (pos_y e - snd (player_loc e))\<rparr>)"

definition chasing_update :: "chasing_enemy \<Rightarrow> game \<Rightarrow> chasing_enemy \<times> game" where
  "chasing_update e g =
     (let e1 = e\<lparr>player_loc := gen_player_loc g\<rparr>;
          e2 = chasing_update_x e1;
          e3 = chasing_update_y e2
      in if hits_player e3 g then (e3, game_over_lose g) else (e3, g))"

subsection \<open>FencingEnemy\<close>

definition move_right_state :: "game \<Rightarrow> fencing_enemy \<Rightarrow> fencing_enemy" where
  "move_right_state g e =
     (if pos_x e < pos_x (home g) + 20 then e\<lparr>pos_x := pos_x e + speed e\<rparr>
      else e\<lparr>fencing_state := Move_up_state\<rparr>)"

definition move_left_state :: "game \<Rightarrow> fencing_enemy \<Rightarrow> fencing_enemy" where
  "move_left_state g e =
     (if pos_x e > pos_x (home g) - 20 then e\<lparr>pos_x := pos_x e - speed e\<rparr>
      else e\<lparr>fencing_state := Move_down_state\<rparr>)"

definition move_up_state :: "game \<Rightarrow> fencing_enemy \<Rightarrow> fencing_enemy" where
  "move_up_state g e =
     (if pos_y e > pos_y (home g) - 20 then e\<lparr>pos_y := pos_y e - speed e\<rparr>
      else e\<lparr>fencing_state := Move_left_state\<rparr>)"

definition move_down_state :: "game \<Rightarrow> fencing_enemy \<Rightarrow> fencing_enemy" where
  "move_down_state g e =
     (if pos_y e < pos_y (home g) + 20 then e\<lparr>pos_y := pos_y e + speed e\<rparr>
      else e\<lparr>fencing_state := Move_right_state\<rparr>)"

definition fencing_update :: "fencing_enemy \<Rightarrow> game \<Rightarrow> fencing_enemy \<times> game" where
  "fencing_update e g =
     (let e1 = (case fencing_state e of
                  Move_right_state \<Rightarrow> move_right_state g e
                | Move_up_state \<Rightarrow> move_up_state g e
                | Move_left_state \<Rightarrow> move_left_state g e
                | Move_down_state \<Rightarrow> move_down_state g e)
      in if hits_player e1 g then (e1, game_over_lose g) else (e1, g))"

subsection \<open>CrossEnemy: the diagonal sweep\<close>

text \<open>
  Python raises \<^verbatim>\<open>ZeroDivisionError\<close> on a division by a zero float; HOL's division
  returns \<open>0\<close> there. The two divisions by \<^verbatim>\<open>hypotenuse\<close> are therefore written with
  the raise as a result of its own.
\<close>

datatype error = ZeroDivisionError

definition cross_move_down_state :: "game \<Rightarrow> cross_enemy \<Rightarrow> error + cross_enemy" where
  "cross_move_down_state g e =
     (if real (winfo_height g) - pos_y e \<ge> 10 then
        (let delta_x = real (winfo_width g) - pos_x e;
             delta_y = real (winfo_height g) - pos_y e;
             hypotenuse = sqrt (delta_x\<^sup>2 + delta_y\<^sup>2)
         in if hypotenuse = 0 then Inl ZeroDivisionError
            else
              (let e1 = e\<lparr>x_speed := speed e * (delta_x / hypotenuse)\<rparr>;
                   e2 = e1\<lparr>y_speed := speed e1 * (delta_y / hypotenuse)\<rparr>;
                   e3 = e2\<lparr>pos_x := pos_x e2 + x_speed e2\<rparr>
               in Inr (e3\<lparr>pos_y := pos_y e3 + y_speed e3\<rparr>)))
      else
        Inr (e\<lparr>pos_x := 0, pos_y := real (winfo_height g),
               cross_state := Cross_move_up_state\<rparr>))"

definition cross_move_up_state :: "game \<Rightarrow> cross_enemy \<Rightarrow> error + cross_enemy" where
  "cross_move_up_state g e =
     (if pos_y e \<ge> 10 then
        (let delta_x = real (winfo_width g) - pos_x e;
             delta_y = pos_y e;
             hypotenuse = sqrt (delta_x\<^sup>2 + delta_y\<^sup>2)
         in if hypotenuse = 0 then Inl ZeroDivisionError
            else
              (let e1 = e\<lparr>x_speed := speed e * (delta_x / hypotenuse)\<rparr>;
                   e2 = e1\<lparr>y_speed := speed e1 * (delta_y / hypotenuse)\<rparr>;
                   e3 = e2\<lparr>pos_x := pos_x e2 + x_speed e2\<rparr>
               in Inr (e3\<lparr>pos_y := pos_y e3 - y_speed e3\<rparr>)))
      else
        Inr (e\<lparr>pos_x := 0, pos_y := 0, cross_state := Cross_move_down_state\<rparr>))"

definition cross_update :: "cross_enemy \<Rightarrow> game \<Rightarrow> error + cross_enemy \<times> game" where
  "cross_update e g =
     (case (case cross_state e of
              Cross_move_down_state \<Rightarrow> cross_move_down_state g e
            | Cross_move_up_state \<Rightarrow> cross_move_up_state g e) of
        Inl err \<Rightarrow> Inl err
      | Inr e1 \<Rightarrow> if hits_player e1 g then Inr (e1, game_over_lose g) else Inr (e1, g))"

subsection \<open>EnemyGenerator\<close>

record enemy_generator =
  gen_level :: int

text \<open>
  \<^verbatim>\<open>for _ in range(k)\<close> runs its body \<open>k\<close> times for a positive integer \<open>k\<close> and not
  at all for \<open>k \<le> 0\<close>: \<open>nat k\<close> times.
\<close>

fun for_range :: "nat \<Rightarrow> (game \<Rightarrow> game) \<Rightarrow> game \<Rightarrow> game" where
  "for_range 0 body g = g"
| "for_range (Suc n) body g = for_range n body (body g)"

definition create_random :: "enemy_generator \<Rightarrow> game \<Rightarrow> game" where
  "create_random gen g =
     for_range (nat (2 * level g - 1)) (add_element (EnemyObj RandomWalkEnemy 15 ''blue'')) g"

text \<open>
  \<^verbatim>\<open>if not num\<close> holds for \<^verbatim>\<open>None\<close> and for a zero number; \<^verbatim>\<open>num/3\<close> is a true
  division and \<^verbatim>\<open>math.ceil\<close> its ceiling.
\<close>

definition create_chasing :: "enemy_generator \<Rightarrow> real option \<Rightarrow> game \<Rightarrow> game" where
  "create_chasing gen num g =
     (let num1 = (case num of
                    None \<Rightarrow> real_of_int (gen_level gen)
                  | Some v \<Rightarrow> if v = 0 then real_of_int (gen_level gen) else v)
      in for_range (nat \<lceil>num1 / 3\<rceil>) (add_element (EnemyObj ChasingEnemy 20 ''red'')) g)"

definition create_fencing :: "enemy_generator \<Rightarrow> game \<Rightarrow> game" where
  "create_fencing gen g =
     for_range (nat \<lceil>real_of_int (level g) / 2\<rceil>)
       (add_element (EnemyObj FencingEnemy 10 ''green'')) g"

definition create_cross :: "enemy_generator \<Rightarrow> game \<Rightarrow> game" where
  "create_cross gen g =
     for_range (nat (3 * level g - 2)) (add_element (EnemyObj CrossEnemy 25 ''black'')) g"

definition create_enemy :: "enemy_generator \<Rightarrow> game \<Rightarrow> game" where
  "create_enemy gen g =
     create_cross gen (create_fencing gen (create_chasing gen None (create_random gen g)))"

text \<open>
  The constructor \<^verbatim>\<open>EnemyGenerator(game, level)\<close>: it stores the level and fills the
  timer queue.
\<close>

definition enemy_generator_init :: "game \<Rightarrow> int \<Rightarrow> enemy_generator \<times> game" where
  "enemy_generator_init g lvl =
     (let gen = \<lparr>gen_level = lvl\<rparr>;
          g1 = after 100 Create_enemy g;
          g2 = for_range 3 (after 10000 (Create_chasing (Some (real_of_int lvl / 4)))) g1
      in (gen, g2))"

text \<open>What the timer does when a queued callback fires: it calls it with its argument.\<close>

definition run_callback :: "enemy_generator \<Rightarrow> callback \<Rightarrow> game \<Rightarrow> game" where
  "run_callback gen cb g =
     (case cb of
        Create_enemy \<Rightarrow> create_enemy gen g
      | Create_chasing num \<Rightarrow> create_chasing gen num g)"

subsection \<open>A concrete session\<close>

text \<open>
  An 800 by 500 game at level 3 right after start-up: Home is the square of size 20
  centred at \<open>(screen_width - 100, screen_height // 2)\<close>, the Player stands at
  \<open>(50, screen_height // 2)\<close> with the default speed 5, the Waypoint is inactive, no
  banner has been drawn. The theorems below are instantiated on it and on variations
  of it.
\<close>

definition example_game :: game where
  "example_game =
     \<lparr>level = 3, screen_width = 800, screen_height = 500,
      winfo_width = 800, winfo_height = 500,
      waypoint = \<lparr>pos_x = 0, pos_y = 0, active = False\<rparr>,
      player = \<lparr>turtle = \<lparr>xcor = 50, ycor = 250, orient = (1, 0)\<rparr>, player_speed = 5\<rparr>,
      home = \<lparr>pos_x = 700, pos_y = 250, home_size = 20\<rparr>,
      elements = [WaypointObj, HomeObj, PlayerObj],
      is_started = True, canvas_texts = [], after_queue = [],
      random_src = (\<lambda>n. n), random_used = 0\<rparr>"

text \<open>Variations: the Player on the left edge of Home, with the Waypoint inactive.\<close>

definition game_at_home_edge :: game where
  "game_at_home_edge =
     example_game\<lparr>player := \<lparr>turtle = \<lparr>xcor = 690, ycor = 250, orient = (1, 0)\<rparr>,
                              player_speed = 5\<rparr>\<rparr>"

text \<open>The Player at the centre of Home, with the Waypoint active three units to its right.\<close>

definition game_home_active :: game where
  "game_home_active =
     example_game\<lparr>player := \<lparr>turtle = \<lparr>xcor = 700, ycor = 250, orient = (1, 0)\<rparr>,
                              player_speed = 5\<rparr>,
                  waypoint := \<lparr>pos_x = 703, pos_y = 250, active = True\<rparr>\<rparr>"

text \<open>
  The instance of the spec's section 8: the Player at \<open>(0, 0)\<close> with speed 5 and the
  Waypoint active at \<open>(3, 0)\<close>.
\<close>

definition game_section8 :: game where
  "game_section8 =
     example_game\<lparr>player := \<lparr>turtle = \<lparr>xcor = 0, ycor = 0, orient = (1, 0)\<rparr>,
                              player_speed = 5\<rparr>,
                  waypoint := \<lparr>pos_x = 3, pos_y = 0, active = True\<rparr>\<rparr>"

text \<open>A patrol enemy inside the screen, moving right and down with speed 4.\<close>

definition example_demo_enemy :: demo_enemy where
  "example_demo_enemy =
     \<lparr>pos_x = 100, pos_y = 100, enemy_size = 10, color = ''red'', speed = 4,
      x_state = State_move_right, y_state = State_move_down\<rparr>"

text \<open>
  Two random-walk enemies of speed 3 with destination \<open>(50, 50)\<close>: one standing exactly on
  it, one 40 units to its left.
\<close>

definition example_random_walk_enemy :: random_walk_enemy where
  "example_random_walk_enemy =
     \<lparr>pos_x = 50, pos_y = 50, enemy_size = 15, color = ''blue'', speed = 3,
      destination = (50, 50)\<rparr>"

definition example_random_walk_enemy_away :: random_walk_enemy where
  "example_random_walk_enemy_away =
     \<lparr>pos_x = 10, pos_y = 50, enemy_size = 15, color = ''blue'', speed = 3,
      destination = (50, 50)\<rparr>"

text \<open>
  A chasing enemy of speed 2 away from the Player, a fencing enemy beside Home, and a
  diagonal-sweep enemy within 10 units of the bottom edge (so that its next step is the
  reset to the opposite corner).
\<close>

definition example_chasing_enemy :: chasing_enemy where
  "example_chasing_enemy =
     \<lparr>pos_x = 60, pos_y = 100, enemy_size = 20, color = ''red'', speed = 2,
      player_loc = (50, 250)\<rparr>"

definition example_fencing_enemy :: fencing_enemy where
  "example_fencing_enemy =
     \<lparr>pos_x = 718, pos_y = 270, enemy_size = 10, color = ''green'', speed = 1,
      fencing_state = Move_right_state\<rparr>"

definition example_cross_enemy :: cross_enemy where
  "example_cross_enemy =
     \<lparr>pos_x = 800, pos_y = 495, enemy_size = 25, color = ''black'', speed = 10,
      cross_state = Cross_move_down_state, x_speed = 0, y_speed = 0\<rparr>"

section \<open>Properties\<close>

subsection \<open>Auxiliary facts\<close>

lemma sqrt_9: "sqrt 9 = 3" by (rule real_sqrt_unique) simp_all

lemma sqrt_4_eq: "sqrt 4 = 2" by (rule real_sqrt_unique) simp_all

lemma game_over_win_fields:
  "is_started (game_over_win g) = False"
  "canvas_texts (game_over_win g) = canvas_texts g @
     [\<lparr>text_x = real_of_int (screen_width g) / 2, text_y = real_of_int (screen_height g) / 2,
       text_string = ''You Win'', text_fill = ''green''\<rparr>]"
  "waypoint (game_over_win g) = waypoint g"
  "player (game_over_win g) = player g"
  "home (game_over_win g) = home g"
  by (simp_all add: game_over_win_def stop_def Let_def)

lemma game_over_lose_fields:
  "is_started (game_over_lose g) = False"
  "canvas_texts (game_over_lose g) = canvas_texts g @
     [\<lparr>text_x = real_of_int (screen_width g) / 2, text_y = real_of_int (screen_height g) / 2,
       text_string = ''You Lose'', text_fill = ''red''\<rparr>]"
  "waypoint (game_over_lose g) = waypoint g"
  "player (game_over_lose g) = player g"
  "home (game_over_lose g) = home g"
  "random_used (game_over_lose g) = random_used g"
  by (simp_all add: game_over_lose_def stop_def Let_def)

lemma player_update_inactive:
  assumes "\<not> active (waypoint g)"
  shows "Player_update g =
     (if contains (home g) (player_x (player g)) (player_y (player g))
      then game_over_win g else g)"
  using assms by (simp add: Player_update_def Let_def game_over_win_fields)

lemma player_update_session:
  "is_started (Player_update g) =
     (if contains (home g) (player_x (player g)) (player_y (player g)) then False
      else is_started g)"
  "canvas_texts (Player_update g) =
     (if contains (home g) (player_x (player g)) (player_y (player g))
      then canvas_texts (game_over_win g) else canvas_texts g)"
  "home (Player_update g) = home g"
  by (simp_all add: Player_update_def Let_def game_over_win_fields)

lemma player_update_active:
  assumes "active (waypoint g)"
  shows "turtle (player (Player_update g)) =
           forward (player_speed (player g))
             (setheading (towards (turtle (player g)) (pos_x (waypoint g)) (pos_y (waypoint g)))
                (turtle (player g)))"
    and "player_speed (player (Player_update g)) = player_speed (player g)"
    and "waypoint (Player_update g) =
           (if distance (turtle (player (Player_update g)))
                 (pos_x (waypoint g)) (pos_y (waypoint g)) < player_speed (player g)
            then deactivate (waypoint g) else waypoint g)"
  using assms by (simp_all add: Player_update_def Let_def game_over_win_fields)

lemma unit_norm:
  fixes a b :: real
  assumes "a\<^sup>2 + b\<^sup>2 \<noteq> 0"
  shows "(a / sqrt (a\<^sup>2 + b\<^sup>2))\<^sup>2 + (b / sqrt (a\<^sup>2 + b\<^sup>2))\<^sup>2 = 1"
proof -
  have sq: "(sqrt (a\<^sup>2 + b\<^sup>2))\<^sup>2 = a\<^sup>2 + b\<^sup>2" by simp
  have "(a / sqrt (a\<^sup>2 + b\<^sup>2))\<^sup>2 + (b / sqrt (a\<^sup>2 + b\<^sup>2))\<^sup>2 =
        (a\<^sup>2 + b\<^sup>2) / (sqrt (a\<^sup>2 + b\<^sup>2))\<^sup>2"
    unfolding power_divide add_divide_distrib ..
  also have "\<dots> = 1" unfolding sq using assms by simp
  finally show ?thesis .
qed

lemma towards_unit:
  "(fst (towards t wx wy))\<^sup>2 + (snd (towards t wx wy))\<^sup>2 = 1"
proof (cases "(wx - xcor t)\<^sup>2 + (wy - ycor t)\<^sup>2 = 0")
  case True
  then show ?thesis by (simp add: towards_def Let_def)
next
  case False
  have "towards t wx wy =
      ((wx - xcor t) / sqrt ((wx - xcor t)\<^sup>2 + (wy - ycor t)\<^sup>2),
       (wy - ycor t) / sqrt ((wx - xcor t)\<^sup>2 + (wy - ycor t)\<^sup>2))"
    using False by (simp add: towards_def Let_def)
  then show ?thesis using unit_norm [OF False] by simp
qed

lemma forward_step_length:
  assumes "0 \<le> d"
  shows "distance t
           (xcor (forward d (setheading (towards t wx wy) t)))
           (ycor (forward d (setheading (towards t wx wy) t))) = d"
proof -
  let ?u = "towards t wx wy"
  have "(fst ?u * d)\<^sup>2 + (snd ?u * d)\<^sup>2 = ((fst ?u)\<^sup>2 + (snd ?u)\<^sup>2) * d\<^sup>2"
    by (simp add: power_mult_distrib distrib_right)
  also have "\<dots> = d\<^sup>2" by (simp add: towards_unit)
  finally have "sqrt ((fst ?u * d)\<^sup>2 + (snd ?u * d)\<^sup>2) = d"
    using assms by simp
  then show ?thesis by (simp add: distance_def forward_def setheading_def)
qed

lemma towards_direction:
  assumes "(wx, wy) \<noteq> (xcor t, ycor t)"
  shows "towards t wx wy =
           ((wx - xcor t) / distance t wx wy, (wy - ycor t) / distance t wx wy)"
proof -
  have "(wx - xcor t)\<^sup>2 + (wy - ycor t)\<^sup>2 \<noteq> 0" using assms by auto
  then show ?thesis by (simp add: towards_def distance_def Let_def)
qed

lemma player_updates_inactive:
  assumes "\<not> active (waypoint g)"
  shows "player ((Player_update ^^ n) g) = player g \<and>
         waypoint ((Player_update ^^ n) g) = waypoint g \<and>
         home ((Player_update ^^ n) g) = home g"
proof (induction n)
  case 0
  show ?case by simp
next
  case (Suc n)
  let ?g = "(Player_update ^^ n) g"
  have "\<not> active (waypoint ?g)" using Suc assms by simp
  then have "Player_update ?g =
     (if contains (home ?g) (player_x (player ?g)) (player_y (player ?g))
      then game_over_win ?g else ?g)"
    by (rule player_update_inactive)
  then show ?case using Suc by (simp add: game_over_win_fields)
qed

subsection \<open>Session termination\<close>

text \<open>
  The session state the source keeps is the running flag cleared by \<^verbatim>\<open>stop\<close> and the
  text items on the canvas. The \<^verbatim>\<open>update\<close> of the Player and of each of the five enemy
  classes on a stopped session does what it does on a running one, and leaves the session
  stopped.
\<close>

lemma choice_stop:
  "choice xs (stop g) = (fst (choice xs g), stop (snd (choice xs g)))"
  by (simp add: choice_def stop_def)

lemma hits_player_stop:
  "hits_player e (stop g) = hits_player e g"
  by (simp add: hits_player_def stop_def)

lemma game_over_lose_stop:
  "game_over_lose (stop g) = stop (game_over_lose g)"
  by (simp add: game_over_lose_def stop_def Let_def)

lemma check_border_stop:
  "check_x_border (stop g) e = check_x_border g e"
  "check_y_border (stop g) e = check_y_border g e"
  by (simp_all add: check_x_border_def check_y_border_def stop_def)

lemma state_move_stop:
  "state_move_right e (stop g) = (fst (state_move_right e g), stop (snd (state_move_right e g)))"
  "state_move_left e (stop g) = (fst (state_move_left e g), stop (snd (state_move_left e g)))"
  "state_move_down e (stop g) = (fst (state_move_down e g), stop (snd (state_move_down e g)))"
  "state_move_up e (stop g) = (fst (state_move_up e g), stop (snd (state_move_up e g)))"
  by (simp_all add: state_move_right_def state_move_left_def state_move_down_def
      state_move_up_def Let_def split_def choice_stop check_border_stop)

lemma demo_update_stop:
  "demo_update e (stop g) = (fst (demo_update e g), stop (snd (demo_update e g)))"
  by (simp add: demo_update_def Let_def split_def state_move_stop hits_player_stop
      game_over_lose_stop split: demo_x_state.split demo_y_state.split)

lemma stop_stopped: "\<not> is_started g \<Longrightarrow> stop g = g"
  by (simp add: stop_def)

lemma randint_stop:
  "randint a b (stop g) = (fst (randint a b g), stop (snd (randint a b g)))"
  by (simp add: randint_def stop_def)

lemma gen_dest_stop:
  "gen_dest (stop g) = (fst (gen_dest g), stop (snd (gen_dest g)))"
  by (simp add: gen_dest_def Let_def split_def randint_stop) (simp add: stop_def)

lemma random_walk_update_stop:
  "random_walk_update e (stop g) =
     (fst (random_walk_update e g), stop (snd (random_walk_update e g)))"
  by (simp add: random_walk_update_def Let_def split_def gen_dest_stop hits_player_stop
      game_over_lose_stop)

lemma chasing_update_stop:
  "chasing_update e (stop g) = (fst (chasing_update e g), stop (snd (chasing_update e g)))"
proof -
  have "gen_player_loc (stop g) = gen_player_loc g"
    by (simp add: gen_player_loc_def stop_def)
  then show ?thesis
    by (simp add: chasing_update_def Let_def hits_player_stop game_over_lose_stop)
qed

lemma fencing_update_stop:
  "fencing_update e (stop g) = (fst (fencing_update e g), stop (snd (fencing_update e g)))"
proof -
  have "move_right_state (stop g) e = move_right_state g e"
    "move_up_state (stop g) e = move_up_state g e"
    "move_left_state (stop g) e = move_left_state g e"
    "move_down_state (stop g) e = move_down_state g e"
    by (simp_all add: move_right_state_def move_up_state_def move_left_state_def
        move_down_state_def stop_def)
  then show ?thesis
    by (cases "fencing_state e")
       (simp_all add: fencing_update_def Let_def hits_player_stop game_over_lose_stop)
qed

lemma cross_update_stop:
  "cross_update e (stop g) =
     (case cross_update e g of Inl err \<Rightarrow> Inl err | Inr (e1, g1) \<Rightarrow> Inr (e1, stop g1))"
proof -
  have "cross_move_down_state (stop g) e = cross_move_down_state g e"
    "cross_move_up_state (stop g) e = cross_move_up_state g e"
    by (simp_all add: cross_move_down_state_def cross_move_up_state_def stop_def)
  then show ?thesis
    by (cases "cross_state e")
       (simp_all add: cross_update_def hits_player_stop game_over_lose_stop split: sum.split)
qed

lemma game_over_win_stop:
  "game_over_win (stop g) = stop (game_over_win g)"
  by (simp add: game_over_win_def stop_def Let_def)

lemma Player_update_stop:
  "Player_update (stop g) = stop (Player_update g)"
  by (simp add: Player_update_def Let_def game_over_win_def stop_def)

lemma stop_is_stopped: "\<not> is_started (stop g)"
  by (simp add: stop_def)

text \<open>
  C1, as stated, fails: neither \<^verbatim>\<open>game_over_win\<close> nor \<^verbatim>\<open>game_over_lose\<close> nor any
  \<^verbatim>\<open>update\<close> tests whether the session has ended. On the concrete session, after
  \<^verbatim>\<open>game_over_win\<close> has cleared the running flag, a second \<^verbatim>\<open>game_over_win\<close> draws a
  second ``You Win'', a \<^verbatim>\<open>game_over_lose\<close> draws ``You Lose'' beside ``You Win'',
  \<^verbatim>\<open>DemoEnemy.update\<close> moves its enemy from \<open>x = 100\<close> to \<open>x = 104\<close> and
  \<^verbatim>\<open>ChasingEnemy.update\<close> moves its enemy from \<open>x = 60\<close> to \<open>x = 58\<close>.
\<close>

theorem game_over_not_idempotent_counterexample:
  "\<not> is_started (game_over_win example_game)
   \<and> canvas_texts (game_over_win (game_over_win example_game)) =
        [\<lparr>text_x = 400, text_y = 250, text_string = ''You Win'', text_fill = ''green''\<rparr>,
         \<lparr>text_x = 400, text_y = 250, text_string = ''You Win'', text_fill = ''green''\<rparr>]
   \<and> canvas_texts (game_over_lose (game_over_win example_game)) =
        [\<lparr>text_x = 400, text_y = 250, text_string = ''You Win'', text_fill = ''green''\<rparr>,
         \<lparr>text_x = 400, text_y = 250, text_string = ''You Lose'', text_fill = ''red''\<rparr>]
   \<and> pos_x example_demo_enemy = 100
   \<and> pos_x (fst (demo_update example_demo_enemy (game_over_win example_game))) = 104
   \<and> pos_x example_chasing_enemy = 60
   \<and> pos_x (fst (chasing_update example_chasing_enemy (game_over_win example_game))) = 58"
  by (simp add: game_over_win_def game_over_lose_def stop_def Let_def example_game_def
      example_demo_enemy_def demo_update_def state_move_right_def state_move_down_def
      check_x_border_def check_y_border_def hits_player_def player_x_def player_y_def
      example_chasing_enemy_def chasing_update_def chasing_update_x_def chasing_update_y_def
      gen_player_loc_def)

text \<open>
  C1, amended. Each call of \<^verbatim>\<open>game_over_win\<close> or \<^verbatim>\<open>game_over_lose\<close> clears the
  running flag and appends its own centred banner to the canvas, whatever the session
  state was. Once the flag is cleared, it stays cleared under every entity update:
  \<^verbatim>\<open>Player.update\<close> and the \<^verbatim>\<open>update\<close> of \<^verbatim>\<open>DemoEnemy\<close>,
  \<^verbatim>\<open>RandomWalkEnemy\<close>, \<^verbatim>\<open>ChasingEnemy\<close>, \<^verbatim>\<open>FencingEnemy\<close> and \<^verbatim>\<open>CrossEnemy\<close>.
  None of these updates consults the flag: on a stopped session each computes the same
  entity state, and the same session, stopped, as on the running one.
\<close>

theorem game_over_stops_session:
  "\<not> is_started (game_over_win g) \<and> \<not> is_started (game_over_lose g)
   \<and> canvas_texts (game_over_win g) = canvas_texts g @
        [\<lparr>text_x = real_of_int (screen_width g) / 2,
          text_y = real_of_int (screen_height g) / 2,
          text_string = ''You Win'', text_fill = ''green''\<rparr>]
   \<and> canvas_texts (game_over_lose g) = canvas_texts g @
        [\<lparr>text_x = real_of_int (screen_width g) / 2,
          text_y = real_of_int (screen_height g) / 2,
          text_string = ''You Lose'', text_fill = ''red''\<rparr>]
   \<and> (\<not> is_started g \<longrightarrow>
        \<not> is_started (Player_update g)
        \<and> \<not> is_started (snd (demo_update e g))
        \<and> \<not> is_started (snd (random_walk_update rw g))
        \<and> \<not> is_started (snd (chasing_update ch g))
        \<and> \<not> is_started (snd (fencing_update fe g))
        \<and> (\<forall>cr1 g1. cross_update cr g = Inr (cr1, g1) \<longrightarrow> \<not> is_started g1))
   \<and> Player_update (stop g) = stop (Player_update g)
   \<and> demo_update e (stop g) = (fst (demo_update e g), stop (snd (demo_update e g)))
   \<and> random_walk_update rw (stop g) =
        (fst (random_walk_update rw g), stop (snd (random_walk_update rw g)))
   \<and> chasing_update ch (stop g) = (fst (chasing_update ch g), stop (snd (chasing_update ch g)))
   \<and> fencing_update fe (stop g) = (fst (fencing_update fe g), stop (snd (fencing_update fe g)))
   \<and> cross_update cr (stop g) =
        (case cross_update cr g of
           Inl err \<Rightarrow> Inl err
         | Inr (cr1, g1) \<Rightarrow> Inr (cr1, stop g1))"
proof -
  have keep: "\<not> is_started (snd r)" if "r = (a, stop b)" for r :: "'e \<times> game" and a b
    using that by (simp add: stop_def)
  have stopped:
    "\<not> is_started (Player_update g)
     \<and> \<not> is_started (snd (demo_update e g))
     \<and> \<not> is_started (snd (random_walk_update rw g))
     \<and> \<not> is_started (snd (chasing_update ch g))
     \<and> \<not> is_started (snd (fencing_update fe g))
     \<and> (\<forall>cr1 g1. cross_update cr g = Inr (cr1, g1) \<longrightarrow> \<not> is_started g1)"
    if n: "\<not> is_started g"
  proof -
    have g: "stop g = g" using n by (rule stop_stopped)
    have 1: "\<not> is_started (Player_update g)"
      using Player_update_stop [of g] stop_is_stopped [of "Player_update g"] by (simp add: g)
    have 2: "\<not> is_started (snd (demo_update e g))"
      using demo_update_stop [of e g] by (intro keep) (simp add: g)
    have 3: "\<not> is_started (snd (random_walk_update rw g))"
      using random_walk_update_stop [of rw g] by (intro keep) (simp add: g)
    have 4: "\<not> is_started (snd (chasing_update ch g))"
      using chasing_update_stop [of ch g] by (intro keep) (simp add: g)
    have 5: "\<not> is_started (snd (fencing_update fe g))"
      using fencing_update_stop [of fe g] by (intro keep) (simp add: g)
    have 6: "\<not> is_started g1" if c: "cross_update cr g = Inr (cr1, g1)" for cr1 g1
    proof -
      from cross_update_stop [of cr g] have "Inr (cr1, g1) = Inr (cr1, stop g1)"
        by (simp add: g c)
      then have "g1 = stop g1" by simp
      then show ?thesis using stop_is_stopped [of g1] by simp
    qed
    show ?thesis using 1 2 3 4 5 6 by blast
  qed
  show ?thesis
    using stopped
    by (simp add: game_over_win_fields game_over_lose_fields Player_update_stop
        demo_update_stop random_walk_update_stop chasing_update_stop fencing_update_stop
        cross_update_stop)
qed

text \<open>
  On the concrete session, stopped: the flag stays cleared under the update of the Player
  and of one enemy of each class.
\<close>

theorem game_over_stops_session_witness:
  "\<not> is_started (stop example_game)
   \<and> \<not> is_started (Player_update (stop example_game))
   \<and> \<not> is_started (snd (demo_update example_demo_enemy (stop example_game)))
   \<and> \<not> is_started (snd (random_walk_update example_random_walk_enemy (stop example_game)))
   \<and> \<not> is_started (snd (chasing_update example_chasing_enemy (stop example_game)))
   \<and> \<not> is_started (snd (fencing_update example_fencing_enemy (stop example_game)))
   \<and> (\<exists>cr1 g1. cross_update example_cross_enemy (stop example_game) = Inr (cr1, g1) \<and>
                 \<not> is_started g1)"
proof -
  have s: "\<not> is_started (stop example_game)" by (simp add: stop_def)
  have c: "cross_update example_cross_enemy (stop example_game) =
             Inr (example_cross_enemy
                    \<lparr>pos_x := 0, pos_y := 500, cross_state := Cross_move_up_state\<rparr>,
                  stop example_game)"
    by (simp add: cross_update_def cross_move_down_state_def example_cross_enemy_def
        example_game_def stop_def hits_player_def player_x_def player_y_def)
  note t = game_over_stops_session
    [of "stop example_game" example_demo_enemy example_random_walk_enemy
        example_chasing_enemy example_fencing_enemy example_cross_enemy]
  from t s have u:
    "\<not> is_started (Player_update (stop example_game))
     \<and> \<not> is_started (snd (demo_update example_demo_enemy (stop example_game)))
     \<and> \<not> is_started (snd (random_walk_update example_random_walk_enemy (stop example_game)))
     \<and> \<not> is_started (snd (chasing_update example_chasing_enemy (stop example_game)))
     \<and> \<not> is_started (snd (fencing_update example_fencing_enemy (stop example_game)))
     \<and> (\<forall>cr1 g1. cross_update example_cross_enemy (stop example_game) = Inr (cr1, g1) \<longrightarrow>
                   \<not> is_started g1)"
    by blast
  then have "\<exists>cr1 g1. cross_update example_cross_enemy (stop example_game) = Inr (cr1, g1) \<and>
                 \<not> is_started g1"
    using c by blast
  then show ?thesis using s u by blast
qed

subsection \<open>Home and the hit-box\<close>

text \<open>
  C10. \<^verbatim>\<open>Home.contains\<close> is the closed-interval test: it holds exactly when the point
  lies in \<open>[x - size/2, x + size/2] \<times> [y - size/2, y + size/2]\<close>. A Player exactly on the
  left edge of a Home of non-negative size is contained, so \<^verbatim>\<open>Player.update\<close> calls
  \<^verbatim>\<open>game_over_win\<close> (the session stops and ``You Win'' is drawn), whereas an enemy with
  the same centre and size does not hit a Player standing there.
\<close>

theorem home_contains_closed_square:
  fixes e :: "'a enemy_scheme"
  shows
  "(contains h px py \<longleftrightarrow>
      px \<in> {pos_x h - home_size h / 2 .. pos_x h + home_size h / 2} \<and>
      py \<in> {pos_y h - home_size h / 2 .. pos_y h + home_size h / 2})
   \<and> (0 \<le> home_size (home g) \<and>
       player_x (player g) = pos_x (home g) - home_size (home g) / 2 \<and>
       player_y (player g) \<in> {pos_y (home g) - home_size (home g) / 2 ..
                                pos_y (home g) + home_size (home g) / 2} \<longrightarrow>
         contains (home g) (player_x (player g)) (player_y (player g)) \<and>
         \<not> is_started (Player_update g) \<and>
         canvas_texts (Player_update g) = canvas_texts g @
           [\<lparr>text_x = real_of_int (screen_width g) / 2,
             text_y = real_of_int (screen_height g) / 2,
             text_string = ''You Win'', text_fill = ''green''\<rparr>] \<and>
         (pos_x e = pos_x (home g) \<and> pos_y e = pos_y (home g) \<and>
          enemy_size e = home_size (home g) \<longrightarrow> \<not> hits_player e g))"
proof -
  have a: "contains h px py \<longleftrightarrow>
      px \<in> {pos_x h - home_size h / 2 .. pos_x h + home_size h / 2} \<and>
      py \<in> {pos_y h - home_size h / 2 .. pos_y h + home_size h / 2}"
    by (auto simp: contains_def Let_def)
  have b: "contains (home g) (player_x (player g)) (player_y (player g))"
    if "0 \<le> home_size (home g)"
       "player_x (player g) = pos_x (home g) - home_size (home g) / 2"
       "player_y (player g) \<in> {pos_y (home g) - home_size (home g) / 2 ..
                                pos_y (home g) + home_size (home g) / 2}"
    using that by (simp add: contains_def Let_def)
  have c: "\<not> hits_player e g"
    if "player_x (player g) = pos_x (home g) - home_size (home g) / 2"
       "pos_x e = pos_x (home g)" "enemy_size e = home_size (home g)"
    using that by (simp add: hits_player_def)
  show ?thesis
    using a b c by (simp add: player_update_session game_over_win_fields)
qed

text \<open>
  The Player at \<open>(690, 250)\<close>, on the left edge of the Home centred at \<open>(700, 250)\<close>.
\<close>

theorem home_contains_closed_square_witness:
  "contains (home game_at_home_edge) 690 250
   \<and> \<not> is_started (Player_update game_at_home_edge)
   \<and> canvas_texts (Player_update game_at_home_edge) =
        [\<lparr>text_x = 400, text_y = 250, text_string = ''You Win'', text_fill = ''green''\<rparr>]
   \<and> \<not> hits_player \<lparr>pos_x = 700, pos_y = 250, enemy_size = 20, color = ''green'', speed = 1,
                    fencing_state = Move_right_state\<rparr> game_at_home_edge"
  using home_contains_closed_square
    [of "home game_at_home_edge" 690 250 game_at_home_edge
        "\<lparr>pos_x = 700, pos_y = 250, enemy_size = 20, color = ''green'', speed = 1,
          fencing_state = Move_right_state\<rparr>"]
  by (simp add: game_at_home_edge_def example_game_def player_x_def player_y_def)

text \<open>
  C3. \<^verbatim>\<open>hits_player\<close> is defined once, in \<^verbatim>\<open>Enemy\<close>, and no variant overrides it,
  so it is stated for every extension of the enemy record. It holds exactly when the
  Player's position lies in the open square
  \<open>(x - size/2, x + size/2) \<times> (y - size/2, y + size/2)\<close> centred on the enemy; a Player
  exactly on one of the four boundary edges is never hit.
\<close>

theorem hits_player_open_square:
  fixes e :: "'a enemy_scheme"
  shows "(hits_player e g \<longleftrightarrow>
           player_x (player g) \<in> {pos_x e - enemy_size e / 2 <..< pos_x e + enemy_size e / 2} \<and>
           player_y (player g) \<in> {pos_y e - enemy_size e / 2 <..< pos_y e + enemy_size e / 2})
         \<and>
         (player_x (player g) = pos_x e - enemy_size e / 2 \<or>
          player_x (player g) = pos_x e + enemy_size e / 2 \<or>
          player_y (player g) = pos_y e - enemy_size e / 2 \<or>
          player_y (player g) = pos_y e + enemy_size e / 2 \<longrightarrow> \<not> hits_player e g)"
  by (auto simp: hits_player_def)

text \<open>
  The Player of the concrete session stands at \<open>(50, 250)\<close>: a chasing enemy of size 20
  centred at \<open>(60, 250)\<close> has the Player on its left edge and does not hit; centred at
  \<open>(59, 250)\<close> it does.
\<close>

theorem hits_player_open_square_witness:
  "\<not> hits_player
      \<lparr>pos_x = 60, pos_y = 250, enemy_size = 20, color = ''red'', speed = 2,
        player_loc = (50, 250)\<rparr> example_game
   \<and> hits_player
      \<lparr>pos_x = 59, pos_y = 250, enemy_size = 20, color = ''red'', speed = 2,
        player_loc = (50, 250)\<rparr> example_game"
  using hits_player_open_square
    [of "\<lparr>pos_x = 60, pos_y = 250, enemy_size = 20, color = ''red'', speed = 2,
        player_loc = (50, 250)\<rparr>" example_game]
    hits_player_open_square
    [of "\<lparr>pos_x = 59, pos_y = 250, enemy_size = 20, color = ''red'', speed = 2,
        player_loc = (50, 250)\<rparr>" example_game]
  by (simp add: example_game_def player_x_def player_y_def)

subsection \<open>The Player\<close>

text \<open>
  C2, as stated, fails: \<^verbatim>\<open>Player.update\<close> has no \<^verbatim>\<open>return\<close> after
  \<^verbatim>\<open>game_over_win()\<close>, so the waypoint rule runs in the same call. With the Player at
  the centre \<open>(700, 250)\<close> of Home and the Waypoint active at \<open>(703, 250)\<close>, one update
  moves the Player to \<open>x = 705\<close>.
\<close>

theorem player_moves_after_arrival_counterexample:
  "contains (home game_home_active) (player_x (player game_home_active))
      (player_y (player game_home_active))
   \<and> active (waypoint game_home_active)
   \<and> player_x (player game_home_active) = 700
   \<and> player_x (player (Player_update game_home_active)) = 705"
  by (simp add: game_home_active_def example_game_def Player_update_def Let_def contains_def
      player_x_def player_y_def game_over_win_def stop_def towards_def setheading_def
      forward_def sqrt_9)

text \<open>
  C2, amended. If \<^verbatim>\<open>Player.update\<close> finds the Player inside Home's region, it calls
  \<^verbatim>\<open>game_over_win\<close> (the running flag is cleared and ``You Win'' is drawn) and then
  applies the waypoint rule in the same call. With the Waypoint inactive the Player is not
  moved by that update nor by any number of repeated updates, and the session is stopped
  after each of them; with the Waypoint active the Player still advances by its speed
  along the heading towards the Waypoint.
\<close>

theorem player_update_at_home:
  "contains (home g) (player_x (player g)) (player_y (player g)) \<longrightarrow>
     \<not> is_started (Player_update g)
     \<and> canvas_texts (Player_update g) = canvas_texts g @
           [\<lparr>text_x = real_of_int (screen_width g) / 2,
             text_y = real_of_int (screen_height g) / 2,
             text_string = ''You Win'', text_fill = ''green''\<rparr>]
     \<and> (\<not> active (waypoint g) \<longrightarrow>
          (\<forall>n. player ((Player_update ^^ n) g) = player g \<and>
               \<not> is_started ((Player_update ^^ Suc n) g)))
     \<and> (active (waypoint g) \<longrightarrow>
          turtle (player (Player_update g)) =
            forward (player_speed (player g))
              (setheading (towards (turtle (player g)) (pos_x (waypoint g)) (pos_y (waypoint g)))
                 (turtle (player g))))"
proof -
  have it: "player ((Player_update ^^ n) g) = player g \<and>
            \<not> is_started ((Player_update ^^ Suc n) g)"
    if c: "contains (home g) (player_x (player g)) (player_y (player g))"
      and i: "\<not> active (waypoint g)" for n
  proof -
    let ?g = "(Player_update ^^ n) g"
    from player_updates_inactive [OF i, of n]
    have "contains (home ?g) (player_x (player ?g)) (player_y (player ?g))"
      and "player ?g = player g"
      using c by simp_all
    then show ?thesis by (simp add: player_update_session)
  qed
  have st: "\<not> is_started (Player_update g)"
    if "contains (home g) (player_x (player g)) (player_y (player g))"
    using that by (simp add: player_update_session)
  have tx: "canvas_texts (Player_update g) = canvas_texts g @
           [\<lparr>text_x = real_of_int (screen_width g) / 2,
             text_y = real_of_int (screen_height g) / 2,
             text_string = ''You Win'', text_fill = ''green''\<rparr>]"
    if "contains (home g) (player_x (player g)) (player_y (player g))"
    using that by (simp add: player_update_session game_over_win_fields)
  have mv: "turtle (player (Player_update g)) =
            forward (player_speed (player g))
              (setheading (towards (turtle (player g)) (pos_x (waypoint g)) (pos_y (waypoint g)))
                 (turtle (player g)))"
    if "active (waypoint g)"
    using that by (rule player_update_active)
  show ?thesis
    using it st tx mv by blast
qed

text \<open>
  The Player on Home's edge with the Waypoint inactive stays put over three updates; the
  Player at Home's centre with the Waypoint active at \<open>(703, 250)\<close> ends at
  \<open>(705, 250)\<close>.
\<close>

theorem player_update_at_home_witness:
  "contains (home game_at_home_edge) (player_x (player game_at_home_edge))
      (player_y (player game_at_home_edge))
   \<and> \<not> active (waypoint game_at_home_edge)
   \<and> \<not> is_started (Player_update game_at_home_edge)
   \<and> player ((Player_update ^^ 3) game_at_home_edge) = player game_at_home_edge
   \<and> active (waypoint game_home_active)
   \<and> turtle (player (Player_update game_home_active)) =
        \<lparr>xcor = 705, ycor = 250, orient = (1, 0)\<rparr>"
proof -
  have c1: "contains (home game_at_home_edge) (player_x (player game_at_home_edge))
      (player_y (player game_at_home_edge))"
    and i1: "\<not> active (waypoint game_at_home_edge)"
    by (simp_all add: game_at_home_edge_def example_game_def contains_def player_x_def
        player_y_def)
  have c2: "contains (home game_home_active) (player_x (player game_home_active))
      (player_y (player game_home_active))"
    and a2: "active (waypoint game_home_active)"
    by (simp_all add: game_home_active_def example_game_def contains_def player_x_def
        player_y_def)
  have t: "forward (player_speed (player game_home_active))
             (setheading (towards (turtle (player game_home_active))
                  (pos_x (waypoint game_home_active)) (pos_y (waypoint game_home_active)))
                (turtle (player game_home_active))) =
           \<lparr>xcor = 705, ycor = 250, orient = (1, 0)\<rparr>"
    by (simp add: game_home_active_def example_game_def towards_def setheading_def
        forward_def sqrt_9)
  show ?thesis
    using player_update_at_home [of game_at_home_edge] player_update_at_home [of game_home_active]
      c1 i1 c2 a2 t
    by simp
qed

text \<open>
  C6. With the Waypoint active and a non-negative speed, one \<^verbatim>\<open>Player.update\<close> turns
  the turtle towards the Waypoint and moves it forward by the speed: the new position is
  at distance exactly \<open>speed\<close> from the old one and, when the Waypoint is not at the
  Player's position, lies in the direction of the Waypoint. The Waypoint stays where it is
  and is deactivated exactly when its distance from the new position is strictly less than
  the speed. With the Waypoint inactive, neither the Player nor the Waypoint changes.
\<close>

theorem player_update_moves_by_speed:
  "(active (waypoint g) \<and> 0 \<le> player_speed (player g) \<longrightarrow>
      turtle (player (Player_update g)) =
        forward (player_speed (player g))
          (setheading (towards (turtle (player g)) (pos_x (waypoint g)) (pos_y (waypoint g)))
             (turtle (player g)))
      \<and> distance (turtle (player g))
           (player_x (player (Player_update g))) (player_y (player (Player_update g))) =
         player_speed (player g)
      \<and> ((pos_x (waypoint g), pos_y (waypoint g)) \<noteq> (player_x (player g), player_y (player g)) \<longrightarrow>
           player_x (player (Player_update g)) =
             player_x (player g) +
             (pos_x (waypoint g) - player_x (player g)) /
               distance (turtle (player g)) (pos_x (waypoint g)) (pos_y (waypoint g)) *
               player_speed (player g)
           \<and> player_y (player (Player_update g)) =
             player_y (player g) +
             (pos_y (waypoint g) - player_y (player g)) /
               distance (turtle (player g)) (pos_x (waypoint g)) (pos_y (waypoint g)) *
               player_speed (player g))
      \<and> (active (waypoint (Player_update g)) \<longleftrightarrow>
           \<not> distance (turtle (player (Player_update g)))
               (pos_x (waypoint g)) (pos_y (waypoint g)) < player_speed (player g))
      \<and> pos_x (waypoint (Player_update g)) = pos_x (waypoint g)
      \<and> pos_y (waypoint (Player_update g)) = pos_y (waypoint g))
   \<and> (\<not> active (waypoint g) \<longrightarrow>
        player (Player_update g) = player g \<and> waypoint (Player_update g) = waypoint g)"
proof -
  let ?t = "turtle (player g)"
  let ?wx = "pos_x (waypoint g)" and ?wy = "pos_y (waypoint g)"
  let ?d = "player_speed (player g)"
  let ?t' = "forward ?d (setheading (towards ?t ?wx ?wy) ?t)"
  have inactive: "player (Player_update g) = player g \<and> waypoint (Player_update g) = waypoint g"
    if "\<not> active (waypoint g)"
    using player_update_inactive [OF that] by (simp add: game_over_win_fields)
  have mv: "turtle (player (Player_update g)) = ?t'" if "active (waypoint g)"
    using that by (rule player_update_active)
  have len: "distance ?t (player_x (player (Player_update g)))
               (player_y (player (Player_update g))) = ?d"
    if "active (waypoint g)" "0 \<le> ?d"
    using forward_step_length [OF that(2), of ?t ?wx ?wy] mv [OF that(1)]
    by (simp add: player_x_def player_y_def)
  have dir: "player_x (player (Player_update g)) =
               player_x (player g) + (?wx - player_x (player g)) / distance ?t ?wx ?wy * ?d
             \<and> player_y (player (Player_update g)) =
               player_y (player g) + (?wy - player_y (player g)) / distance ?t ?wx ?wy * ?d"
    if "active (waypoint g)" "(?wx, ?wy) \<noteq> (player_x (player g), player_y (player g))"
  proof -
    have "(?wx, ?wy) \<noteq> (xcor ?t, ycor ?t)"
      using that(2) by (simp add: player_x_def player_y_def)
    from towards_direction [OF this] mv [OF that(1)]
    show ?thesis by (simp add: player_x_def player_y_def forward_def setheading_def)
  qed
  have wp: "(active (waypoint (Player_update g)) \<longleftrightarrow>
              \<not> distance (turtle (player (Player_update g))) ?wx ?wy < ?d)
            \<and> pos_x (waypoint (Player_update g)) = ?wx
            \<and> pos_y (waypoint (Player_update g)) = ?wy"
    if "active (waypoint g)"
    using player_update_active(3) [OF that] that by (simp add: deactivate_def)
  show ?thesis
    using inactive mv len dir wp by blast
qed

text \<open>
  The instance of section 8 of the spec: from \<open>(0, 0)\<close> with speed 5 towards \<open>(3, 0)\<close>
  the Player ends at \<open>(5, 0)\<close>, at distance \<open>2 < 5\<close> from the Waypoint, which is
  deactivated. On the concrete session, whose Waypoint is inactive, the Player is
  unchanged.
\<close>

theorem player_update_moves_by_speed_witness:
  "active (waypoint game_section8) \<and> (0::real) \<le> player_speed (player game_section8)
   \<and> player_x (player (Player_update game_section8)) = 5
   \<and> player_y (player (Player_update game_section8)) = 0
   \<and> distance (turtle (player (Player_update game_section8))) 3 0 = 2
   \<and> \<not> active (waypoint (Player_update game_section8))
   \<and> \<not> active (waypoint example_game)
   \<and> player (Player_update example_game) = player example_game"
proof -
  have a: "active (waypoint game_section8)" "0 \<le> player_speed (player game_section8)"
    "pos_x (waypoint game_section8) = 3" "pos_y (waypoint game_section8) = 0"
    "player_speed (player game_section8) = 5"
    "turtle (player game_section8) = \<lparr>xcor = 0, ycor = 0, orient = (1, 0)\<rparr>"
    by (simp_all add: game_section8_def example_game_def)
  have t: "forward 5 (setheading (towards \<lparr>xcor = 0, ycor = 0, orient = (1, 0)\<rparr> 3 0)
              \<lparr>xcor = 0, ycor = 0, orient = (1, 0)\<rparr>) =
           \<lparr>xcor = 5, ycor = 0, orient = (1, 0)\<rparr>"
    by (simp add: towards_def setheading_def forward_def sqrt_9)
  have d: "distance \<lparr>xcor = 5, ycor = 0, orient = (1, 0)\<rparr> 3 0 = 2"
    by (simp add: distance_def sqrt_4_eq)
  have i: "\<not> active (waypoint example_game)" by (simp add: example_game_def)
  show ?thesis
    using player_update_moves_by_speed [of game_section8]
      player_update_moves_by_speed [of example_game] i
    by (simp add: a t d player_x_def player_y_def)
qed

subsection \<open>The random-walk enemy\<close>

lemma randint_bounds:
  assumes "a \<le> b"
  shows "a \<le> fst (randint a b g)" "fst (randint a b g) \<le> b"
proof -
  have "0 < nat (b - a + 1)" using assms by simp
  then have "random_src g (random_used g) mod nat (b - a + 1) < nat (b - a + 1)"
    by (rule mod_less_divisor)
  then have "int (random_src g (random_used g) mod nat (b - a + 1)) < b - a + 1"
    using assms by linarith
  then show "a \<le> fst (randint a b g)" "fst (randint a b g) \<le> b"
    by (simp_all add: randint_def)
qed

lemma randint_snd:
  "snd (randint a b g) = g\<lparr>random_used := random_used g + 1\<rparr>"
  by (simp add: randint_def)

lemma gen_dest_bounds:
  "0 \<le> fst (fst (gen_dest g))" "fst (fst (gen_dest g)) \<le> int (winfo_width g)"
  "0 \<le> snd (fst (gen_dest g))" "snd (fst (gen_dest g)) \<le> int (winfo_height g)"
  "random_used (snd (gen_dest g)) = random_used g + 2"
  using randint_bounds [of 0 "int (winfo_width g)" g]
    randint_bounds [of 0 "int (winfo_height g)" "g\<lparr>random_used := random_used g + 1\<rparr>"]
  by (simp_all add: gen_dest_def Let_def split_def randint_snd)

lemma random_walk_update_fst:
  "fst (random_walk_update e g) =
     random_walk_update_y (random_walk_update_x
       (if real_of_int (fst (destination e)) = pos_x e \<and>
           real_of_int (snd (destination e)) = pos_y e
        then e\<lparr>destination := fst (gen_dest g)\<rparr> else e))"
  by (simp add: random_walk_update_def Let_def split_def)

lemma random_walk_update_snd:
  "random_used (snd (random_walk_update e g)) =
     (if real_of_int (fst (destination e)) = pos_x e \<and>
         real_of_int (snd (destination e)) = pos_y e
      then random_used g + 2 else random_used g)"
  by (simp add: random_walk_update_def Let_def split_def game_over_lose_fields gen_dest_bounds)

lemma random_walk_axes:
  "destination (random_walk_update_y (random_walk_update_x e)) = destination e"
  "pos_x (random_walk_update_y (random_walk_update_x e)) =
     (if real_of_int (fst (destination e)) > pos_x e
      then pos_x e + min (speed e) (real_of_int (fst (destination e)) - pos_x e)
      else pos_x e - min (speed e) (pos_x e - real_of_int (fst (destination e))))"
  "pos_y (random_walk_update_y (random_walk_update_x e)) =
     (if real_of_int (snd (destination e)) > pos_y e
      then pos_y e + min (speed e) (real_of_int (snd (destination e)) - pos_y e)
      else pos_y e - min (speed e) (pos_y e - real_of_int (snd (destination e))))"
  by (simp_all add: random_walk_update_x_def random_walk_update_y_def)

lemma seek_axis:
  fixes p d s :: real
  assumes "0 \<le> s"
    and "q = (if d > p then p + min s (d - p) else p - min s (p - d))"
  shows "\<bar>q - p\<bar> = min s \<bar>d - p\<bar>"
    and "\<bar>d - q\<bar> = \<bar>d - p\<bar> - min s \<bar>d - p\<bar>"
    and "\<bar>d - q\<bar> \<le> \<bar>d - p\<bar>"
    and "p \<le> d \<Longrightarrow> p \<le> q \<and> q \<le> d"
    and "d \<le> p \<Longrightarrow> d \<le> q \<and> q \<le> p"
  using assms by (auto simp: min_def abs_if)

lemma random_walk_create_speed:
  "1 \<le> speed (fst (random_walk_create e g))" "speed (fst (random_walk_create e g)) \<le> 5"
  using randint_bounds [of 1 5 g] by (simp_all add: random_walk_create_def split_def Let_def)

lemma random_walk_update_speed:
  "speed (fst (random_walk_update e g)) = speed e"
  by (simp add: random_walk_update_fst random_walk_update_x_def random_walk_update_y_def)

text \<open>
  C7. For a random-walk enemy of non-negative speed (\<^verbatim>\<open>create\<close> draws it from 1 to 5
  and \<^verbatim>\<open>update\<close> leaves it unchanged: \<open>random_walk_create_speed\<close>,
  \<open>random_walk_update_speed\<close>),
  one update first draws a new destination, two integers within \<open>[0, width]\<close> and
  \<open>[0, height]\<close>, exactly when both coordinates equal those of the current destination
  (two draws are consumed then, none otherwise), and then moves each axis by
  \<open>min(speed, remaining distance on that axis)\<close> towards the destination: the distance
  to the destination does not grow on either axis and the coordinate stays between its old
  value and the destination's.
\<close>

theorem random_walk_never_overshoots:
  "0 \<le> speed e \<longrightarrow>
     (let arrived = (real_of_int (fst (destination e)) = pos_x e \<and>
                     real_of_int (snd (destination e)) = pos_y e);
          e' = fst (random_walk_update e g);
          g' = snd (random_walk_update e g);
          dx = real_of_int (fst (destination e'));
          dy = real_of_int (snd (destination e'))
      in (arrived \<longrightarrow>
            destination e' = fst (gen_dest g) \<and>
            0 \<le> fst (destination e') \<and> fst (destination e') \<le> int (winfo_width g) \<and>
            0 \<le> snd (destination e') \<and> snd (destination e') \<le> int (winfo_height g) \<and>
            random_used g' = random_used g + 2)
         \<and> (\<not> arrived \<longrightarrow>
              destination e' = destination e \<and> random_used g' = random_used g)
         \<and> \<bar>pos_x e' - pos_x e\<bar> = min (speed e) \<bar>dx - pos_x e\<bar>
         \<and> \<bar>pos_y e' - pos_y e\<bar> = min (speed e) \<bar>dy - pos_y e\<bar>
         \<and> \<bar>dx - pos_x e'\<bar> \<le> \<bar>dx - pos_x e\<bar>
         \<and> \<bar>dy - pos_y e'\<bar> \<le> \<bar>dy - pos_y e\<bar>
         \<and> (pos_x e \<le> dx \<longrightarrow> pos_x e \<le> pos_x e' \<and> pos_x e' \<le> dx)
         \<and> (dx \<le> pos_x e \<longrightarrow> dx \<le> pos_x e' \<and> pos_x e' \<le> pos_x e)
         \<and> (pos_y e \<le> dy \<longrightarrow> pos_y e \<le> pos_y e' \<and> pos_y e' \<le> dy)
         \<and> (dy \<le> pos_y e \<longrightarrow> dy \<le> pos_y e' \<and> pos_y e' \<le> pos_y e))"
proof
  assume s: "0 \<le> speed e"
  let ?arrived = "real_of_int (fst (destination e)) = pos_x e \<and>
                  real_of_int (snd (destination e)) = pos_y e"
  let ?e0 = "if ?arrived then e\<lparr>destination := fst (gen_dest g)\<rparr> else e"
  let ?e' = "fst (random_walk_update e g)"
  have e0: "pos_x ?e0 = pos_x e" "pos_y ?e0 = pos_y e" "speed ?e0 = speed e"
    by simp_all
  have d: "destination ?e' = destination ?e0"
    by (simp only: random_walk_update_fst random_walk_axes)
  have px: "pos_x ?e' =
     (if real_of_int (fst (destination ?e')) > pos_x e
      then pos_x e + min (speed e) (real_of_int (fst (destination ?e')) - pos_x e)
      else pos_x e - min (speed e) (pos_x e - real_of_int (fst (destination ?e'))))"
    unfolding d unfolding random_walk_update_fst random_walk_axes e0 ..
  have py: "pos_y ?e' =
     (if real_of_int (snd (destination ?e')) > pos_y e
      then pos_y e + min (speed e) (real_of_int (snd (destination ?e')) - pos_y e)
      else pos_y e - min (speed e) (pos_y e - real_of_int (snd (destination ?e'))))"
    unfolding d unfolding random_walk_update_fst random_walk_axes e0 ..
  have dest: "?arrived \<longrightarrow>
            destination ?e' = fst (gen_dest g) \<and>
            0 \<le> fst (destination ?e') \<and> fst (destination ?e') \<le> int (winfo_width g) \<and>
            0 \<le> snd (destination ?e') \<and> snd (destination ?e') \<le> int (winfo_height g) \<and>
            random_used (snd (random_walk_update e g)) = random_used g + 2"
    unfolding d by (simp add: gen_dest_bounds random_walk_update_snd)
  have keep: "\<not> ?arrived \<longrightarrow>
              destination ?e' = destination e \<and>
              random_used (snd (random_walk_update e g)) = random_used g"
    unfolding d by (simp add: random_walk_update_snd)
  note ax = seek_axis [OF s px]
  note ay = seek_axis [OF s py]
  show "let arrived = ?arrived;
          e' = fst (random_walk_update e g);
          g' = snd (random_walk_update e g);
          dx = real_of_int (fst (destination e'));
          dy = real_of_int (snd (destination e'))
      in (arrived \<longrightarrow>
            destination e' = fst (gen_dest g) \<and>
            0 \<le> fst (destination e') \<and> fst (destination e') \<le> int (winfo_width g) \<and>
            0 \<le> snd (destination e') \<and> snd (destination e') \<le> int (winfo_height g) \<and>
            random_used g' = random_used g + 2)
         \<and> (\<not> arrived \<longrightarrow>
              destination e' = destination e \<and> random_used g' = random_used g)
         \<and> \<bar>pos_x e' - pos_x e\<bar> = min (speed e) \<bar>dx - pos_x e\<bar>
         \<and> \<bar>pos_y e' - pos_y e\<bar> = min (speed e) \<bar>dy - pos_y e\<bar>
         \<and> \<bar>dx - pos_x e'\<bar> \<le> \<bar>dx - pos_x e\<bar>
         \<and> \<bar>dy - pos_y e'\<bar> \<le> \<bar>dy - pos_y e\<bar>
         \<and> (pos_x e \<le> dx \<longrightarrow> pos_x e \<le> pos_x e' \<and> pos_x e' \<le> dx)
         \<and> (dx \<le> pos_x e \<longrightarrow> dx \<le> pos_x e' \<and> pos_x e' \<le> pos_x e)
         \<and> (pos_y e \<le> dy \<longrightarrow> pos_y e \<le> pos_y e' \<and> pos_y e' \<le> dy)
         \<and> (dy \<le> pos_y e \<longrightarrow> dy \<le> pos_y e' \<and> pos_y e' \<le> pos_y e)"
    unfolding Let_def
    using dest keep ax(1) ay(1) ax(3) ay(3) ax(4) ax(5) ay(4) ay(5) by blast
qed

text \<open>
  An enemy of speed 3 standing on its destination \<open>(50, 50)\<close> draws the new destination
  \<open>(0, 1)\<close> from the concrete session and moves to \<open>(47, 47)\<close>; one standing at
  \<open>(10, 50)\<close> keeps the destination, draws nothing and moves to \<open>(13, 50)\<close>.
\<close>

theorem random_walk_never_overshoots_witness:
  "(0::real) \<le> speed example_random_walk_enemy
   \<and> destination (fst (random_walk_update example_random_walk_enemy example_game)) = (0, 1)
   \<and> random_used (snd (random_walk_update example_random_walk_enemy example_game)) = 2
   \<and> pos_x (fst (random_walk_update example_random_walk_enemy example_game)) = 47
   \<and> pos_y (fst (random_walk_update example_random_walk_enemy example_game)) = 47
   \<and> destination (fst (random_walk_update example_random_walk_enemy_away example_game)) = (50, 50)
   \<and> random_used (snd (random_walk_update example_random_walk_enemy_away example_game)) = 0
   \<and> pos_x (fst (random_walk_update example_random_walk_enemy_away example_game)) = 13
   \<and> pos_y (fst (random_walk_update example_random_walk_enemy_away example_game)) = 50"
proof -
  have a: "speed example_random_walk_enemy = 3" "pos_x example_random_walk_enemy = 50"
    "pos_y example_random_walk_enemy = 50" "destination example_random_walk_enemy = (50, 50)"
    by (simp_all add: example_random_walk_enemy_def)
  have b: "speed example_random_walk_enemy_away = 3" "pos_x example_random_walk_enemy_away = 10"
    "pos_y example_random_walk_enemy_away = 50"
    "destination example_random_walk_enemy_away = (50, 50)"
    by (simp_all add: example_random_walk_enemy_away_def)
  have g: "fst (gen_dest example_game) = (0, 1)" "random_used example_game = 0"
    by (simp_all add: gen_dest_def randint_def example_game_def Let_def)
  from random_walk_never_overshoots [of example_random_walk_enemy example_game]
  have 1: "destination (fst (random_walk_update example_random_walk_enemy example_game)) = (0, 1)
   \<and> random_used (snd (random_walk_update example_random_walk_enemy example_game)) = 2
   \<and> pos_x (fst (random_walk_update example_random_walk_enemy example_game)) = 47
   \<and> pos_y (fst (random_walk_update example_random_walk_enemy example_game)) = 47"
    by (auto simp: Let_def a g abs_if split: if_splits)
  from random_walk_never_overshoots [of example_random_walk_enemy_away example_game]
  have 2: "destination (fst (random_walk_update example_random_walk_enemy_away example_game)) = (50, 50)
   \<and> random_used (snd (random_walk_update example_random_walk_enemy_away example_game)) = 0
   \<and> pos_x (fst (random_walk_update example_random_walk_enemy_away example_game)) = 13
   \<and> pos_y (fst (random_walk_update example_random_walk_enemy_away example_game)) = 50"
    by (auto simp: Let_def b g abs_if split: if_splits)
  show ?thesis using 1 2 by (simp add: a)
qed

subsection \<open>The patrol enemy\<close>

lemma choice_mem:
  assumes "xs \<noteq> []"
  shows "fst (choice xs g) \<in> set xs"
  using assms by (simp add: choice_def)

lemma choice_factor:
  "fst (choice [1, 1.1] g) \<in> {1, 1.1}"
  using choice_mem [of "[1, 1.1]" g] by simp

lemma choice_snd:
  "winfo_width (snd (choice xs g)) = winfo_width g"
  "winfo_height (snd (choice xs g)) = winfo_height g"
  by (simp_all add: choice_def)

lemma state_move_right_fst:
  "fst (state_move_right e g) =
     (if pos_x e + speed e < 0 \<or> pos_x e + speed e > real (winfo_width g)
      then e\<lparr>pos_x := pos_x e + speed e, speed := speed e * fst (choice [1, 1.1] g),
             x_state := State_move_left\<rparr>
      else e\<lparr>pos_x := pos_x e + speed e\<rparr>)"
  by (simp add: state_move_right_def check_x_border_def Let_def split_def)

lemma state_move_left_fst:
  "fst (state_move_left e g) =
     (if pos_x e - speed e < 0 \<or> pos_x e - speed e > real (winfo_width g)
      then e\<lparr>pos_x := pos_x e - speed e, speed := speed e * fst (choice [1, 1.1] g),
             x_state := State_move_right\<rparr>
      else e\<lparr>pos_x := pos_x e - speed e\<rparr>)"
  by (simp add: state_move_left_def check_x_border_def Let_def split_def)

lemma state_move_down_fst:
  "fst (state_move_down e g) =
     (if pos_y e + speed e < 0 \<or> pos_y e + speed e > real (winfo_height g)
      then e\<lparr>pos_y := pos_y e + speed e, speed := speed e * fst (choice [1, 1.1] g),
             y_state := State_move_up\<rparr>
      else e\<lparr>pos_y := pos_y e + speed e\<rparr>)"
  by (simp add: state_move_down_def check_y_border_def Let_def split_def)

lemma state_move_up_fst:
  "fst (state_move_up e g) =
     (if pos_y e - speed e < 0 \<or> pos_y e - speed e > real (winfo_height g)
      then e\<lparr>pos_y := pos_y e - speed e, speed := speed e * fst (choice [1, 1.1] g),
             y_state := State_move_down\<rparr>
      else e\<lparr>pos_y := pos_y e - speed e\<rparr>)"
  by (simp add: state_move_up_def check_y_border_def Let_def split_def)

lemma state_move_x_snd:
  "winfo_height (snd (state_move_right e g)) = winfo_height g"
  "winfo_height (snd (state_move_left e g)) = winfo_height g"
  by (simp_all add: state_move_right_def state_move_left_def Let_def split_def choice_snd)

text \<open>The horizontal and the vertical step of one update.\<close>

lemma demo_update_fst:
  "fst (demo_update e g) =
     fst (case y_state e of
            State_move_down \<Rightarrow>
              state_move_down
                (fst (case x_state e of State_move_right \<Rightarrow> state_move_right e g
                      | State_move_left \<Rightarrow> state_move_left e g))
                (snd (case x_state e of State_move_right \<Rightarrow> state_move_right e g
                      | State_move_left \<Rightarrow> state_move_left e g))
          | State_move_up \<Rightarrow>
              state_move_up
                (fst (case x_state e of State_move_right \<Rightarrow> state_move_right e g
                      | State_move_left \<Rightarrow> state_move_left e g))
                (snd (case x_state e of State_move_right \<Rightarrow> state_move_right e g
                      | State_move_left \<Rightarrow> state_move_left e g)))"
proof -
  have y: "y_state (fst (state_move_right e g)) = y_state e"
          "y_state (fst (state_move_left e g)) = y_state e"
    by (simp_all add: state_move_right_fst state_move_left_fst)
  show ?thesis
    by (cases "x_state e"; cases "y_state e")
       (simp_all add: demo_update_def Let_def split_def y)
qed

lemma demo_update_step:
  "\<exists>fx\<in>{1, 1.1}. \<exists>fy\<in>{1, 1.1}.
     (let xm = (case x_state e of State_move_right \<Rightarrow> pos_x e + speed e
                | State_move_left \<Rightarrow> pos_x e - speed e);
          cx = (xm < 0 \<or> xm > real (winfo_width g));
          s1 = (if cx then speed e * fx else speed e);
          ym = (case y_state e of State_move_down \<Rightarrow> pos_y e + s1
                | State_move_up \<Rightarrow> pos_y e - s1);
          cy = (ym < 0 \<or> ym > real (winfo_height g));
          e' = fst (demo_update e g)
      in pos_x e' = xm \<and> pos_y e' = ym
         \<and> x_state e' = (if cx then (case x_state e of State_move_right \<Rightarrow> State_move_left
                                      | State_move_left \<Rightarrow> State_move_right)
                          else x_state e)
         \<and> y_state e' = (if cy then (case y_state e of State_move_down \<Rightarrow> State_move_up
                                      | State_move_up \<Rightarrow> State_move_down)
                          else y_state e)
         \<and> speed e' = (if cy then s1 * fy else s1))"
proof -
  let ?xs = "case x_state e of State_move_right \<Rightarrow> state_move_right e g
             | State_move_left \<Rightarrow> state_move_left e g"
  let ?fx = "fst (choice [1, 1.1] g)"
  let ?fy = "fst (choice [1, 1.1] (snd ?xs))"
  have h: "winfo_height (snd ?xs) = winfo_height g"
    by (cases "x_state e") (simp_all add: state_move_x_snd)
  show ?thesis
  proof (rule bexI [where x = ?fx], rule bexI [where x = ?fy])
    show "?fx \<in> {1, 1.1}" by (rule choice_factor)
    show "?fy \<in> {1, 1.1}" by (rule choice_factor)
    show "let xm = (case x_state e of State_move_right \<Rightarrow> pos_x e + speed e
                | State_move_left \<Rightarrow> pos_x e - speed e);
          cx = (xm < 0 \<or> xm > real (winfo_width g));
          s1 = (if cx then speed e * ?fx else speed e);
          ym = (case y_state e of State_move_down \<Rightarrow> pos_y e + s1
                | State_move_up \<Rightarrow> pos_y e - s1);
          cy = (ym < 0 \<or> ym > real (winfo_height g));
          e' = fst (demo_update e g)
      in pos_x e' = xm \<and> pos_y e' = ym
         \<and> x_state e' = (if cx then (case x_state e of State_move_right \<Rightarrow> State_move_left
                                      | State_move_left \<Rightarrow> State_move_right)
                          else x_state e)
         \<and> y_state e' = (if cy then (case y_state e of State_move_down \<Rightarrow> State_move_up
                                      | State_move_up \<Rightarrow> State_move_down)
                          else y_state e)
         \<and> speed e' = (if cy then s1 * ?fy else s1)"
      using h
      by (cases "x_state e"; cases "y_state e")
         (simp_all add: demo_update_fst Let_def state_move_right_fst state_move_left_fst
            state_move_down_fst state_move_up_fst)
  qed
qed

lemma factor_ge_one:
  fixes f s :: real
  assumes "f \<in> {1, 1.1}" "0 \<le> s"
  shows "s \<le> s * f"
proof -
  have "1 \<le> f" using assms(1) by auto
  then show ?thesis using assms(2) by (simp add: mult_le_cancel_left1)
qed

lemma demo_update_speed:
  assumes "0 \<le> speed e"
  shows "speed e \<le> speed (fst (demo_update e g))"
proof -
  obtain fx fy :: real where fx: "fx \<in> {1, 1.1}" and fy: "fy \<in> {1, 1.1}"
    and sp: "\<exists>cx cy. speed (fst (demo_update e g)) =
              (if cy then (if cx then speed e * fx else speed e) * fy
               else (if cx then speed e * fx else speed e))"
    using demo_update_step [of e g] unfolding Let_def by blast
  have a: "speed e \<le> speed e * fx" using factor_ge_one [OF fx assms] .
  then have "0 \<le> speed e * fx" using assms by linarith
  from factor_ge_one [OF fy this] have b: "speed e * fx \<le> speed e * fx * fy" .
  have c: "speed e \<le> speed e * fy" using factor_ge_one [OF fy assms] .
  from sp a b c show ?thesis by (auto split: if_splits)
qed

lemma demo_updates_speed:
  assumes "0 \<le> speed e"
  shows "speed e \<le> speed (fst (demo_updates n e g))"
  using assms
proof (induction n arbitrary: e g)
  case 0
  show ?case by simp
next
  case (Suc n)
  let ?e1 = "fst (demo_update e g)" and ?g1 = "snd (demo_update e g)"
  have s1: "speed e \<le> speed ?e1" using Suc.prems by (rule demo_update_speed)
  then have "0 \<le> speed ?e1" using Suc.prems by linarith
  then have "speed ?e1 \<le> speed (fst (demo_updates n ?e1 ?g1))" by (rule Suc.IH)
  then show ?case using s1 by (simp add: split_def Let_def)
qed

lemma demo_create_speed:
  "1 \<le> speed (fst (demo_create e g))" "speed (fst (demo_create e g)) \<le> 5"
  using randint_bounds [of 1 5 g] by (simp_all add: demo_create_def split_def Let_def)

text \<open>
  C8. One \<^verbatim>\<open>DemoEnemy.update\<close> moves the enemy by its speed along the x axis in the
  direction of its x state; if the new \<open>x\<close> is outside \<open>[0, width]\<close> the x state flips
  and the speed is multiplied by a factor \<open>fx\<close> from \<open>{1, 1.1}\<close>. It then does the same
  along the y axis with the y state, the speed just obtained and a factor \<open>fy\<close>. Each
  axis keeps its own state. Hence for a non-negative speed (\<^verbatim>\<open>create\<close> draws it from 1
  to 5: \<open>demo_create_speed\<close>) the speed never decreases, over
  one update and over any number of successive updates; and an enemy at \<open>x = width\<close>
  moving right with speed 4 is, after the update, moving left with a speed of at least 4.
\<close>

theorem patrol_bounce:
  "(\<exists>fx\<in>{1, 1.1}. \<exists>fy\<in>{1, 1.1}.
     (let xm = (case x_state e of State_move_right \<Rightarrow> pos_x e + speed e
                | State_move_left \<Rightarrow> pos_x e - speed e);
          cx = (xm < 0 \<or> xm > real (winfo_width g));
          s1 = (if cx then speed e * fx else speed e);
          ym = (case y_state e of State_move_down \<Rightarrow> pos_y e + s1
                | State_move_up \<Rightarrow> pos_y e - s1);
          cy = (ym < 0 \<or> ym > real (winfo_height g));
          e' = fst (demo_update e g)
      in pos_x e' = xm \<and> pos_y e' = ym
         \<and> x_state e' = (if cx then (case x_state e of State_move_right \<Rightarrow> State_move_left
                                      | State_move_left \<Rightarrow> State_move_right)
                          else x_state e)
         \<and> y_state e' = (if cy then (case y_state e of State_move_down \<Rightarrow> State_move_up
                                      | State_move_up \<Rightarrow> State_move_down)
                          else y_state e)
         \<and> speed e' = (if cy then s1 * fy else s1)))
   \<and> (0 \<le> speed e \<longrightarrow>
        speed e \<le> speed (fst (demo_update e g)) \<and>
        (\<forall>n. speed e \<le> speed (fst (demo_updates n e g))))
   \<and> (pos_x e = real (winfo_width g) \<and> x_state e = State_move_right \<and> speed e = 4 \<longrightarrow>
        x_state (fst (demo_update e g)) = State_move_left \<and>
        4 \<le> speed (fst (demo_update e g)))"
proof -
  have inst: "x_state (fst (demo_update e g)) = State_move_left \<and>
              4 \<le> speed (fst (demo_update e g))"
    if "pos_x e = real (winfo_width g)" "x_state e = State_move_right" "speed e = 4"
  proof -
    have "x_state (fst (demo_update e g)) = State_move_left"
      using that
      by (cases "y_state e")
         (simp_all add: demo_update_fst state_move_right_fst state_move_down_fst
            state_move_up_fst)
    moreover have "4 \<le> speed (fst (demo_update e g))"
      using demo_update_speed [of e g] that by simp
    ultimately show ?thesis ..
  qed
  show ?thesis
    using demo_update_step [of e g] demo_update_speed [of e g] demo_updates_speed [of e _ g] inst
    by blast
qed

text \<open>
  The patrol enemy of speed 4 put on the right edge \<open>x = 800\<close> of the concrete session.
\<close>

theorem patrol_bounce_witness:
  "(0::real) \<le> speed (example_demo_enemy\<lparr>pos_x := 800\<rparr>)
   \<and> pos_x (example_demo_enemy\<lparr>pos_x := 800\<rparr>) = real (winfo_width example_game)
   \<and> x_state (fst (demo_update (example_demo_enemy\<lparr>pos_x := 800\<rparr>) example_game)) =
        State_move_left
   \<and> 4 \<le> speed (fst (demo_update (example_demo_enemy\<lparr>pos_x := 800\<rparr>) example_game))
   \<and> 4 \<le> speed (fst (demo_updates 3 (example_demo_enemy\<lparr>pos_x := 800\<rparr>) example_game))"
proof -
  have f: "speed (example_demo_enemy\<lparr>pos_x := 800\<rparr>) = 4"
    "pos_x (example_demo_enemy\<lparr>pos_x := 800\<rparr>) = real (winfo_width example_game)"
    "x_state (example_demo_enemy\<lparr>pos_x := 800\<rparr>) = State_move_right"
    by (simp_all add: example_demo_enemy_def example_game_def)
  from patrol_bounce [of "example_demo_enemy\<lparr>pos_x := 800\<rparr>" example_game]
  have "(0 \<le> speed (example_demo_enemy\<lparr>pos_x := 800\<rparr>) \<longrightarrow>
          (\<forall>n. speed (example_demo_enemy\<lparr>pos_x := 800\<rparr>)
               \<le> speed (fst (demo_updates n (example_demo_enemy\<lparr>pos_x := 800\<rparr>) example_game))))
        \<and> (pos_x (example_demo_enemy\<lparr>pos_x := 800\<rparr>) = real (winfo_width example_game) \<and>
           x_state (example_demo_enemy\<lparr>pos_x := 800\<rparr>) = State_move_right \<and>
           speed (example_demo_enemy\<lparr>pos_x := 800\<rparr>) = 4 \<longrightarrow>
           x_state (fst (demo_update (example_demo_enemy\<lparr>pos_x := 800\<rparr>) example_game)) =
             State_move_left \<and>
           4 \<le> speed (fst (demo_update (example_demo_enemy\<lparr>pos_x := 800\<rparr>) example_game)))"
    by blast
  then show ?thesis using f by simp
qed

subsection \<open>The diagonal-sweep enemy\<close>

lemma hypotenuse_ge:
  fixes dx dy :: real
  assumes "10 \<le> dy"
  shows "10 \<le> sqrt (dx\<^sup>2 + dy\<^sup>2)"
proof -
  have "dy = sqrt (dy\<^sup>2)" using assms by simp
  also have "\<dots> \<le> sqrt (dx\<^sup>2 + dy\<^sup>2)" by (rule real_sqrt_le_mono) simp
  finally show ?thesis using assms by linarith
qed

text \<open>
  C9. In both movement states of \<^verbatim>\<open>CrossEnemy\<close> the division by \<^verbatim>\<open>hypotenuse\<close> is
  executed only under the state's guard (\<open>height - y \<ge> 10\<close>, respectively \<open>y \<ge> 10\<close>),
  and under the guard the hypotenuse is at least 10. So for every position and every
  canvas neither state function raises \<^verbatim>\<open>ZeroDivisionError\<close>, and \<^verbatim>\<open>update\<close> always
  returns.
\<close>

theorem cross_division_guarded:
  "cross_move_down_state g e \<noteq> Inl ZeroDivisionError
   \<and> cross_move_up_state g e \<noteq> Inl ZeroDivisionError
   \<and> (\<exists>r. cross_update e g = Inr r)
   \<and> (real (winfo_height g) - pos_y e \<ge> 10 \<longrightarrow>
        sqrt ((real (winfo_width g) - pos_x e)\<^sup>2 + (real (winfo_height g) - pos_y e)\<^sup>2) \<ge> 10)
   \<and> (pos_y e \<ge> 10 \<longrightarrow>
        sqrt ((real (winfo_width g) - pos_x e)\<^sup>2 + (pos_y e)\<^sup>2) \<ge> 10)"
proof -
  have down: "cross_move_down_state g e \<noteq> Inl ZeroDivisionError"
  proof (cases "real (winfo_height g) - pos_y e \<ge> 10")
    case True
    from hypotenuse_ge [OF True, of "real (winfo_width g) - pos_x e"]
    have "sqrt ((real (winfo_width g) - pos_x e)\<^sup>2 + (real (winfo_height g) - pos_y e)\<^sup>2) \<noteq> 0"
      by linarith
    then show ?thesis using True by (simp add: cross_move_down_state_def Let_def)
  next
    case False
    then show ?thesis by (simp add: cross_move_down_state_def)
  qed
  have up: "cross_move_up_state g e \<noteq> Inl ZeroDivisionError"
  proof (cases "pos_y e \<ge> 10")
    case True
    from hypotenuse_ge [OF True, of "real (winfo_width g) - pos_x e"]
    have "sqrt ((real (winfo_width g) - pos_x e)\<^sup>2 + (pos_y e)\<^sup>2) \<noteq> 0"
      by linarith
    then show ?thesis using True by (simp add: cross_move_up_state_def Let_def)
  next
    case False
    then show ?thesis by (simp add: cross_move_up_state_def)
  qed
  have upd: "\<exists>r. cross_update e g = Inr r"
  proof (cases "cross_state e")
    case Cross_move_down_state
    obtain e1 where "cross_move_down_state g e = Inr e1"
      using down by (cases "cross_move_down_state g e") (auto intro: error.exhaust)
    then show ?thesis using Cross_move_down_state by (simp add: cross_update_def)
  next
    case Cross_move_up_state
    obtain e1 where "cross_move_up_state g e = Inr e1"
      using up by (cases "cross_move_up_state g e") (auto intro: error.exhaust)
    then show ?thesis using Cross_move_up_state by (simp add: cross_update_def)
  qed
  show ?thesis using down up upd by (simp add: hypotenuse_ge)
qed

text \<open>
  On the 800 by 500 canvas: an enemy at \<open>(0, 0)\<close> sweeping down and an enemy at
  \<open>(0, 500)\<close> sweeping up both pass their guard and divide by a hypotenuse of at least
  10.
\<close>

theorem cross_division_guarded_witness:
  "cross_move_down_state example_game
     \<lparr>pos_x = 0, pos_y = 0, enemy_size = 25, color = ''black'', speed = 10,
      cross_state = Cross_move_down_state, x_speed = 0, y_speed = 0\<rparr> \<noteq> Inl ZeroDivisionError
   \<and> (10::real) \<le> 500 - 0 \<and> 10 \<le> sqrt ((800 - 0)\<^sup>2 + (500 - 0)\<^sup>2)
   \<and> cross_move_up_state example_game
     \<lparr>pos_x = 0, pos_y = 500, enemy_size = 25, color = ''black'', speed = 10,
      cross_state = Cross_move_up_state, x_speed = 0, y_speed = 0\<rparr> \<noteq> Inl ZeroDivisionError
   \<and> (10::real) \<le> 500 \<and> 10 \<le> sqrt ((800 - 0)\<^sup>2 + 500\<^sup>2)"
  using cross_division_guarded
    [of example_game "\<lparr>pos_x = 0, pos_y = 0, enemy_size = 25, color = ''black'', speed = 10,
      cross_state = Cross_move_down_state, x_speed = 0, y_speed = 0\<rparr>"]
    cross_division_guarded
    [of example_game "\<lparr>pos_x = 0, pos_y = 500, enemy_size = 25, color = ''black'', speed = 10,
      cross_state = Cross_move_up_state, x_speed = 0, y_speed = 0\<rparr>"]
  by (simp add: example_game_def)

subsection \<open>The enemy generator\<close>

lemma for_range_add_element:
  "for_range n (add_element obj) g = g\<lparr>elements := elements g @ replicate n obj\<rparr>"
proof (induction n arbitrary: g)
  case 0
  show ?case by simp
next
  case (Suc n)
  have "for_range (Suc n) (add_element obj) g = for_range n (add_element obj) (add_element obj g)"
    by simp
  also have "\<dots> = (add_element obj g)
      \<lparr>elements := elements (add_element obj g) @ replicate n obj\<rparr>"
    by (rule Suc)
  also have "\<dots> = g\<lparr>elements := elements g @ replicate (Suc n) obj\<rparr>"
    by (simp add: add_element_def)
  finally show ?case .
qed

lemma for_range_after:
  "for_range n (after ms cb) g = g\<lparr>after_queue := after_queue g @ replicate n (ms, cb)\<rparr>"
proof (induction n arbitrary: g)
  case 0
  show ?case by simp
next
  case (Suc n)
  have "for_range (Suc n) (after ms cb) g = for_range n (after ms cb) (after ms cb g)"
    by simp
  also have "\<dots> = (after ms cb g)
      \<lparr>after_queue := after_queue (after ms cb g) @ replicate n (ms, cb)\<rparr>"
    by (rule Suc)
  also have "\<dots> = g\<lparr>after_queue := after_queue g @ replicate (Suc n) (ms, cb)\<rparr>"
    by (simp add: after_def)
  finally show ?case .
qed

lemma enemy_generator_init_eq:
  "enemy_generator_init g lvl =
     (\<lparr>gen_level = lvl\<rparr>,
      g\<lparr>after_queue := after_queue g @
           [(100, Create_enemy),
            (10000, Create_chasing (Some (real_of_int lvl / 4))),
            (10000, Create_chasing (Some (real_of_int lvl / 4))),
            (10000, Create_chasing (Some (real_of_int lvl / 4)))]\<rparr>)"
  by (simp add: enemy_generator_init_def Let_def for_range_after after_def numeral_3_eq_3)

lemma create_enemy_elements:
  assumes "gen_level gen = level g"
  shows "create_enemy gen g =
     g\<lparr>elements := elements g
        @ replicate (nat (2 * level g - 1)) (EnemyObj RandomWalkEnemy 15 ''blue'')
        @ replicate (nat \<lceil>real_of_int (level g) / 3\<rceil>) (EnemyObj ChasingEnemy 20 ''red'')
        @ replicate (nat \<lceil>real_of_int (level g) / 2\<rceil>) (EnemyObj FencingEnemy 10 ''green'')
        @ replicate (nat (3 * level g - 2)) (EnemyObj CrossEnemy 25 ''black'')\<rparr>"
  using assms
  by (simp add: create_enemy_def create_random_def create_chasing_def create_fencing_def
      create_cross_def for_range_add_element)

text \<open>
  C4. For a generator constructed with the game's level \<open>L\<close> (as \<^verbatim>\<open>init_game\<close> does),
  \<^verbatim>\<open>create_enemy\<close> appends to the element collection exactly \<open>max(0, 2L - 1)\<close>
  random-walk enemies, then \<open>max(0, \<lceil>L/3\<rceil>)\<close> chasing enemies, then
  \<open>max(0, \<lceil>L/2\<rceil>)\<close> fencing enemies, then \<open>max(0, 3L - 2)\<close> cross enemies, and
  nothing else. The function has no error result: a non-positive count spawns nothing.
\<close>

theorem create_enemy_counts:
  "elements (create_enemy (fst (enemy_generator_init g (level g)))
                          (snd (enemy_generator_init g (level g)))) =
     elements g
       @ replicate (nat (max 0 (2 * level g - 1))) (EnemyObj RandomWalkEnemy 15 ''blue'')
       @ replicate (nat (max 0 \<lceil>real_of_int (level g) / 3\<rceil>)) (EnemyObj ChasingEnemy 20 ''red'')
       @ replicate (nat (max 0 \<lceil>real_of_int (level g) / 2\<rceil>)) (EnemyObj FencingEnemy 10 ''green'')
       @ replicate (nat (max 0 (3 * level g - 2))) (EnemyObj CrossEnemy 25 ''black'')"
  by (simp add: enemy_generator_init_eq create_enemy_elements max_def)

text \<open>
  Level 3 gives 5, 1, 2 and 7 enemies; level 0 gives none.
\<close>

theorem create_enemy_counts_witness:
  "elements (create_enemy (fst (enemy_generator_init example_game 3))
                          (snd (enemy_generator_init example_game 3))) =
     [WaypointObj, HomeObj, PlayerObj]
       @ replicate 5 (EnemyObj RandomWalkEnemy 15 ''blue'')
       @ replicate 1 (EnemyObj ChasingEnemy 20 ''red'')
       @ replicate 2 (EnemyObj FencingEnemy 10 ''green'')
       @ replicate 7 (EnemyObj CrossEnemy 25 ''black'')
   \<and> elements (create_enemy
        (fst (enemy_generator_init (example_game\<lparr>level := 0\<rparr>) 0))
        (snd (enemy_generator_init (example_game\<lparr>level := 0\<rparr>) 0))) =
     [WaypointObj, HomeObj, PlayerObj]"
proof -
  have l3: "level example_game = 3" and e3: "elements example_game = [WaypointObj, HomeObj, PlayerObj]"
    by (simp_all add: example_game_def)
  have c3: "\<lceil>(3::real) / 3\<rceil> = 1" "\<lceil>(3::real) / 2\<rceil> = 2" by simp_all
  show ?thesis
    using create_enemy_counts [of example_game] create_enemy_counts [of "example_game\<lparr>level := 0\<rparr>"]
    by (simp add: l3 e3 c3)
qed

text \<open>
  C5, as stated, fails: the scheduled callback is \<^verbatim>\<open>create_chasing(level/4)\<close>, and
  \<^verbatim>\<open>create_chasing(num)\<close> spawns \<open>\<lceil>num/3\<rceil>\<close> enemies, not \<open>num\<close>. At level 12 each of
  the three 10-second callbacks carries the argument 3 and spawns one chasing enemy.
\<close>

theorem create_chasing_subwave_counterexample:
  "after_queue (snd (enemy_generator_init (example_game\<lparr>level := 12\<rparr>) 12)) =
     [(100, Create_enemy), (10000, Create_chasing (Some 3)),
      (10000, Create_chasing (Some 3)), (10000, Create_chasing (Some 3))]
   \<and> elements (run_callback (fst (enemy_generator_init (example_game\<lparr>level := 12\<rparr>) 12))
                 (Create_chasing (Some 3))
                 (snd (enemy_generator_init (example_game\<lparr>level := 12\<rparr>) 12))) =
     [WaypointObj, HomeObj, PlayerObj, EnemyObj ChasingEnemy 20 ''red'']"
  by (simp add: enemy_generator_init_eq run_callback_def create_chasing_def
      for_range_add_element example_game_def)

text \<open>
  C5, amended. Constructing the generator with level \<open>L\<close> appends to the timer queue one
  100 ms callback \<^verbatim>\<open>create_enemy\<close> and exactly three 10000 ms callbacks
  \<^verbatim>\<open>create_chasing(L/4)\<close>; each of these, when it fires, appends exactly
  \<open>max(0, \<lceil>L/12\<rceil>)\<close> chasing enemies of size 20 to the element collection.
\<close>

theorem enemy_generator_schedule:
  "after_queue (snd (enemy_generator_init g lvl)) =
     after_queue g @
       [(100, Create_enemy),
        (10000, Create_chasing (Some (real_of_int lvl / 4))),
        (10000, Create_chasing (Some (real_of_int lvl / 4))),
        (10000, Create_chasing (Some (real_of_int lvl / 4)))]
   \<and> elements (run_callback (fst (enemy_generator_init g lvl))
                 (Create_chasing (Some (real_of_int lvl / 4))) g') =
     elements g' @
       replicate (nat (max 0 \<lceil>real_of_int lvl / 12\<rceil>)) (EnemyObj ChasingEnemy 20 ''red'')"
  by (simp add: enemy_generator_init_eq run_callback_def create_chasing_def
      for_range_add_element max_def)

text \<open>
  Level 3: the argument is \<open>3/4\<close> and each extra sub-wave is one chasing enemy.
\<close>

theorem enemy_generator_schedule_witness:
  "after_queue (snd (enemy_generator_init example_game 3)) =
       [(100, Create_enemy),
        (10000, Create_chasing (Some (3 / 4))),
        (10000, Create_chasing (Some (3 / 4))),
        (10000, Create_chasing (Some (3 / 4)))]
   \<and> elements (run_callback (fst (enemy_generator_init example_game 3))
                 (Create_chasing (Some (3 / 4))) example_game) =
     [WaypointObj, HomeObj, PlayerObj, EnemyObj ChasingEnemy 20 ''red'']"
proof -
  have q: "after_queue example_game = []"
    and e: "elements example_game = [WaypointObj, HomeObj, PlayerObj]"
    by (simp_all add: example_game_def)
  have c: "\<lceil>(1::real) / 4\<rceil> = 1" by (rule ceiling_unique) simp_all
  show ?thesis
    using enemy_generator_schedule [of example_game 3 example_game]
    by (simp add: q e c)
qed

end
